theory Spec2Isabelle
  imports Complex_Main "HOL-Library.Sublist"
begin

section \<open>Python strings\<close>

text \<open>
  Text is a \<^typ>\<open>string\<close>, one \<^typ>\<open>char\<close> per code point, for code points below 256.
  Whitespace is what \<^verbatim>\<open>str.split()\<close> and \<^verbatim>\<open>str.strip()\<close> take for whitespace among these
  code points. The case mappings are those of the ASCII letters: the transcripts are reduced
  to ASCII when they are loaded (\<^verbatim>\<open>manage.py\<close> keeps the characters with
  \<^verbatim>\<open>ord(char) < 128\<close>), and a letter above 127 is left as it is.
\<close>

definition is_space :: "char \<Rightarrow> bool" where
  \<comment> \<open>the characters below 256 that \<^verbatim>\<open>str.split()\<close> and \<^verbatim>\<open>str.strip()\<close> treat as
      whitespace: the ASCII ones, U+0085 and U+00A0\<close>
  "is_space c = (c \<in> set [CHR 0x09, CHR 0x0A, CHR 0x0B, CHR 0x0C, CHR 0x0D,
                            CHR 0x1C, CHR 0x1D, CHR 0x1E, CHR 0x1F, CHR 0x20,
                            CHR 0x85, CHR 0xA0])"

fun split_from :: "string \<Rightarrow> string \<Rightarrow> string list" where
  \<comment> \<open>the scan of \<^verbatim>\<open>str.split()\<close>: \<open>w\<close> is the word read so far\<close>
  "split_from w [] = (if w = [] then [] else [w])"
| "split_from w (c # cs) =
     (if is_space c then (if w = [] then split_from [] cs else w # split_from [] cs)
      else split_from (w @ [c]) cs)"

definition str_split :: "string \<Rightarrow> string list" where
  \<comment> \<open>\<^verbatim>\<open>text.split()\<close>: the maximal runs of non-whitespace characters\<close>
  "str_split text = split_from [] text"

fun str_join :: "string \<Rightarrow> string list \<Rightarrow> string" where
  \<comment> \<open>\<^verbatim>\<open>sep.join(xs)\<close>\<close>
  "str_join sep [] = []"
| "str_join sep [x] = x"
| "str_join sep (x # y # ys) = x @ sep @ str_join sep (y # ys)"

definition slice_bound :: "nat \<Rightarrow> int \<Rightarrow> nat" where
  \<comment> \<open>a slice bound of Python: a negative bound counts from the end, and both are clamped\<close>
  "slice_bound n k = (if k < 0 then nat (int n + k) else min n (nat k))"

definition list_slice :: "'a list \<Rightarrow> int \<Rightarrow> int \<Rightarrow> 'a list" where
  \<comment> \<open>\<^verbatim>\<open>xs[lo:hi]\<close>\<close>
  "list_slice xs lo hi =
     (let a = slice_bound (length xs) lo; b = slice_bound (length xs) hi
      in take (b - a) (drop a xs))"

section \<open>The chunker: \<^verbatim>\<open>PostgresRAGService.chunk_text\<close>\<close>

datatype py_error = ValueError | IndexError

function chunk_loop :: "string list \<Rightarrow> int \<Rightarrow> int \<Rightarrow> int \<Rightarrow> string list" where
  \<comment> \<open>the body of \<^verbatim>\<open>for i in range(0, len(words), step)\<close> from index \<open>i\<close> on, with its
      \<^verbatim>\<open>break\<close>; a range with a negative step is empty here\<close>
  "chunk_loop words max_chunk_size step i =
     (if step \<le> 0 \<or> int (length words) \<le> i then []
      else str_join '' '' (list_slice words i (i + max_chunk_size)) #
           (if i + max_chunk_size \<ge> int (length words) then []
            else chunk_loop words max_chunk_size step (i + step)))"
  by pat_completeness auto
termination
  by (relation "measure (\<lambda>(words, m, step, i). nat (int (length words) - i))") auto

declare chunk_loop.simps [simp del]

definition chunk_text :: "string \<Rightarrow> int \<Rightarrow> int \<Rightarrow> py_error + string list" where
  \<comment> \<open>\<^verbatim>\<open>range\<close> raises ValueError for a step of zero, whatever the number of words\<close>
  "chunk_text text max_chunk_size overlap =
     (if text = [] then Inr []
      else let words = str_split text
           in if max_chunk_size - overlap = 0 then Inl ValueError
              else Inr (chunk_loop words max_chunk_size (max_chunk_size - overlap) 0))"

fun reconstruct :: "nat \<Rightarrow> string list \<Rightarrow> string list" where
  \<comment> \<open>the first chunk whole, every later chunk without its first \<open>k\<close> tokens\<close>
  "reconstruct k [] = []"
| "reconstruct k (c # cs) = str_split c @ concat (map (\<lambda>d. drop k (str_split d)) cs)"

definition word_ok :: "string \<Rightarrow> bool" where
  "word_ok w = (w \<noteq> [] \<and> list_all (\<lambda>c. \<not> is_space c) w)"

section \<open>The sentiment classifier: \<^verbatim>\<open>EarningsSummarizer.determine_outlook_sentiment\<close>\<close>

definition is_upper :: "char \<Rightarrow> bool" where
  "is_upper c = (65 \<le> (of_char c :: nat) \<and> (of_char c :: nat) \<le> 90)"

definition is_lower :: "char \<Rightarrow> bool" where
  "is_lower c = (97 \<le> (of_char c :: nat) \<and> (of_char c :: nat) \<le> 122)"

fun case_bit :: "bool \<Rightarrow> char \<Rightarrow> char" where
  \<comment> \<open>an ASCII letter and its other case differ in the bit of value 32\<close>
  "case_bit v (Char b0 b1 b2 b3 b4 b5 b6 b7) = Char b0 b1 b2 b3 b4 v b6 b7"

definition lower_char :: "char \<Rightarrow> char" where
  "lower_char c = (if is_upper c then case_bit True c else c)"

definition upper_char :: "char \<Rightarrow> char" where
  "upper_char c = (if is_lower c then case_bit False c else c)"

definition str_lower :: "string \<Rightarrow> string" where
  \<comment> \<open>\<^verbatim>\<open>s.lower()\<close>\<close>
  "str_lower s = map lower_char s"

fun title_from :: "bool \<Rightarrow> string \<Rightarrow> string" where
  \<comment> \<open>\<^verbatim>\<open>s.title()\<close>: a letter after a letter is lowered, any other letter is raised\<close>
  "title_from prev [] = []"
| "title_from prev (c # cs) =
     (if prev then lower_char c else upper_char c) # title_from (is_upper c \<or> is_lower c) cs"

definition str_title :: "string \<Rightarrow> string" where
  "str_title s = title_from False s"

definition strip_chars :: "(char \<Rightarrow> bool) \<Rightarrow> string \<Rightarrow> string" where
  \<comment> \<open>\<^verbatim>\<open>s.strip(chars)\<close>: the characters are removed at both ends\<close>
  "strip_chars p s = rev (dropWhile p (rev (dropWhile p s)))"

definition str_strip :: "string \<Rightarrow> string" where
  \<comment> \<open>\<^verbatim>\<open>s.strip()\<close>\<close>
  "str_strip s = strip_chars is_space s"

fun contains :: "string \<Rightarrow> string \<Rightarrow> bool" where
  \<comment> \<open>\<^verbatim>\<open>word in transcript\<close>: the word occurs as a substring\<close>
  "contains w [] = (w = [])"
| "contains w (c # cs) = (prefix w (c # cs) \<or> contains w cs)"

definition keyword_count :: "string list \<Rightarrow> string \<Rightarrow> nat" where
  \<comment> \<open>\<^verbatim>\<open>sum(1 for word in keywords if word in transcript)\<close>\<close>
  "keyword_count keywords transcript =
     length (filter (\<lambda>word. contains word transcript) keywords)"

definition positive_keywords :: "string list" where
  \<comment> \<open>\<^verbatim>\<open>settings.SENTIMENT_KEYWORDS['positive']\<close>\<close>
  "positive_keywords =
     [''optimistic'', ''confident'', ''strong'', ''growth'', ''momentum'',
      ''pleased'', ''excited'', ''bullish'', ''opportunity'', ''progress'',
      ''improved'', ''solid'', ''robust'', ''excellent'']"

definition negative_keywords :: "string list" where
  \<comment> \<open>\<^verbatim>\<open>settings.SENTIMENT_KEYWORDS['negative']\<close>\<close>
  "negative_keywords =
     [''challenging'', ''difficult'', ''headwinds'', ''pressure'', ''decline'',
      ''concerned'', ''cautious'', ''weakness'', ''slowdown'', ''uncertainty'',
      ''disappointing'', ''volatile'', ''risk'', ''struggle'']"

definition neutral_keywords :: "string list" where
  \<comment> \<open>\<^verbatim>\<open>settings.SENTIMENT_KEYWORDS['neutral']\<close>\<close>
  "neutral_keywords =
     [''stable'', ''steady'', ''mixed'', ''balanced'', ''moderate'',
      ''consistent'', ''maintaining'', ''monitoring'', ''watchful'']"

definition valid_sentiments :: "string list" where
  "valid_sentiments =
     [''Positive'', ''Negative'', ''Neutral'', ''Cautious'', ''Bullish'', ''Bearish'',
      ''Optimistic'', ''Pessimistic'', ''Mixed'', ''Strong'', ''Weak'', ''Confident'']"

definition prompt_options :: "string list" where
  \<comment> \<open>the options the prompt lists after \<^verbatim>\<open>Respond with EXACTLY ONE WORD from these options\<close>\<close>
  "prompt_options =
     [''Positive'', ''Negative'', ''Neutral'', ''Cautious'', ''Bullish'', ''Bearish'']"

definition keyword_fallback :: "nat \<Rightarrow> nat \<Rightarrow> nat \<Rightarrow> string" where
  \<comment> \<open>the final \<^verbatim>\<open>if/elif/else\<close> of the function\<close>
  "keyword_fallback positive_count negative_count neutral_count =
     (if positive_count > negative_count \<and> positive_count > neutral_count then ''Positive''
      else if negative_count > positive_count \<and> negative_count > neutral_count then ''Negative''
      else ''Neutral'')"

text \<open>
  The function takes the transcript and \<open>generated\<close>, the text that
  \<^verbatim>\<open>self.ollama.generate(prompt, max_tokens=10)\<close> returns: the model's answer, or the empty
  string when the request fails (\<^verbatim>\<open>OllamaClient.generate\<close> catches every exception and
  returns \<^verbatim>\<open>""\<close>). The prompt, the company lookup and the management lines go into the
  request only; the value returned depends on them through \<open>generated\<close> alone.
  \<^verbatim>\<open>result.split()[0]\<close> raises IndexError on an empty list, which is a branch here.
\<close>

definition determine_outlook_sentiment :: "string \<Rightarrow> string \<Rightarrow> py_error + string" where
  "determine_outlook_sentiment raw_transcript generated =
     (let transcript = str_lower raw_transcript;
          positive_count = keyword_count positive_keywords transcript;
          negative_count = keyword_count negative_keywords transcript;
          neutral_count = keyword_count neutral_keywords transcript;
          fallback = keyword_fallback positive_count negative_count neutral_count;
          result = str_strip generated
      in if result \<noteq> [] then
           (case str_split result of
              [] \<Rightarrow> Inl IndexError
            | w # _ \<Rightarrow>
                (let first_word = str_title (strip_chars (\<lambda>c. c \<in> set ''.,!?'') w)
                 in if first_word \<in> set valid_sentiments then Inr first_word
                    else Inr fallback))
         else Inr fallback)"

text \<open>
  The count as the specification words it, for comparison: the occurrences of the keywords
  of a set in the text, every position at which a keyword starts counted once.
\<close>

fun count_occurrences :: "string \<Rightarrow> string \<Rightarrow> nat" where
  "count_occurrences w [] = 0"
| "count_occurrences w (c # cs) = (if prefix w (c # cs) then 1 else 0) + count_occurrences w cs"

definition spec_occurrence_count :: "string list \<Rightarrow> string \<Rightarrow> nat" where
  "spec_occurrence_count keywords transcript =
     sum_list (map (\<lambda>word. count_occurrences word transcript) keywords)"

section \<open>The vector store\<close>

text \<open>
  The tables of \<^verbatim>\<open>config/database.py\<close> that the service reads and writes, each as the
  list of its rows in insertion order, with the columns the service uses. The surrogate
  keys of the chunk and summary rows and the \<^verbatim>\<open>created_at\<close> stamps are left out: the
  service never reads them. A nullable column is an \<open>option\<close>. The embedding type \<open>'e\<close>
  is a parameter.
\<close>

record earnings_call =
  ec_id :: int
  ec_company_symbol :: string
  ec_quarter :: string
  ec_year :: int
  ec_call_date :: "string option"
  ec_raw_transcript :: "string option"

record summary =
  sm_earnings_call_id :: int
  sm_summary_type :: "string option"
  sm_content :: "string option"

record 'e document_chunk =
  dc_earnings_call_id :: int
  dc_chunk_text :: string
  dc_chunk_index :: int
  dc_chunk_type :: string
  dc_embedding :: "'e option"

record financial_news =
  fn_id :: int
  fn_symbol :: string
  fn_title :: string
  fn_content :: "string option"
  fn_publisher :: "string option"
  fn_published_date :: "string option"
  fn_url :: "string option"

record 'e news_chunk =
  nc_news_id :: int
  nc_chunk_text :: string
  nc_chunk_index :: int
  nc_embedding :: "'e option"

record 'e database =
  earnings_calls :: "earnings_call list"
  summaries :: "summary list"
  document_chunks :: "'e document_chunk list"
  news_articles :: "financial_news list"
  news_chunks :: "'e news_chunk list"

text \<open>
  \<^verbatim>\<open>self.embedder.encode(texts)\<close> belongs to the sentence-transformers library. It is a
  parameter: a function from the list of texts to the list of vectors, \<open>None\<close> when the call
  raises. \<^verbatim>\<open>self.embedder\<close> itself is \<open>None\<close> when the model could not be loaded.
\<close>

type_synonym 'e embedder = "string list \<Rightarrow> 'e list option"

definition truthy :: "string option \<Rightarrow> bool" where
  \<comment> \<open>\<^verbatim>\<open>if text:\<close> for a nullable string\<close>
  "truthy text = (case text of None \<Rightarrow> False | Some s \<Rightarrow> s \<noteq> [])"

definition batch_size :: nat where
  "batch_size = 10"

definition chunk_rows ::
    "int \<Rightarrow> string \<Rightarrow> nat \<Rightarrow> string list \<Rightarrow> 'e list \<Rightarrow> 'e document_chunk list" where
  \<comment> \<open>\<^verbatim>\<open>for j, (chunk_text, embedding) in enumerate(zip(chunks, embeddings))\<close>, the index of
      a row being \<open>start + j\<close>\<close>
  "chunk_rows earnings_call_id chunk_type start chunks embeddings =
     map (\<lambda>(j, chunk, embedding).
            \<lparr>dc_earnings_call_id = earnings_call_id, dc_chunk_text = chunk,
             dc_chunk_index = int (start + j), dc_chunk_type = chunk_type,
             dc_embedding = Some embedding\<rparr>)
         (enumerate 0 (zip chunks embeddings))"

text \<open>
  The column \<^verbatim>\<open>chunk_type\<close> of the chunk table is \<^verbatim>\<open>String(50)\<close>, and the database (PostgreSQL
  with pgvector) refuses a longer value: the commit that writes such a row raises. The type
  \<^verbatim>\<open>transcript\<close> fits; the type of a summary chunk is \<^verbatim>\<open>summary_\<close> followed by the summary
  type, itself a \<^verbatim>\<open>String(50)\<close>, and need not fit. The other columns take every value
  the service writes: the chunk texts are built from \<^verbatim>\<open>Text\<close> columns of the same database,
  the call exists, and the vectors are taken to have the dimension of the column
  \<^verbatim>\<open>embedding\<close>.
\<close>

definition insert_ok :: "'e document_chunk list \<Rightarrow> bool" where
  \<comment> \<open>\<^verbatim>\<open>db.commit()\<close> with these rows pending writes them\<close>
  "insert_ok rows = list_all (\<lambda>r. length (dc_chunk_type r) \<le> 50) rows"

text \<open>
  The two loops return the rows they have committed and whether they ran to their end:
  \<open>False\<close> stands for an exception, which leaves the function through its handler. Every
  \<^verbatim>\<open>encode\<close> comes before the \<^verbatim>\<open>db.add\<close> calls of its batch and every batch ends with a
  commit, so at an exception of \<^verbatim>\<open>encode\<close> no row is pending, and at an exception of the
  commit the rollback of the handler discards the rows of that batch and no other.
  \<^verbatim>\<open>chunks_added\<close> is incremented with every row added; it is returned only when no exception
  occurred, and is then the number of rows committed.
\<close>

function transcript_batches ::
    "'e embedder \<Rightarrow> int \<Rightarrow> string list \<Rightarrow> nat \<Rightarrow> 'e document_chunk list \<times> bool" where
  \<comment> \<open>\<^verbatim>\<open>for i in range(0, len(transcript_chunks), batch_size)\<close> from \<open>i\<close> on\<close>
  "transcript_batches encode earnings_call_id transcript_chunks i =
     (if length transcript_chunks \<le> i then ([], True)
      else let batch_chunks = take batch_size (drop i transcript_chunks)
           in case encode batch_chunks of
                None \<Rightarrow> ([], False)
              | Some embeddings \<Rightarrow>
                  (let rows = chunk_rows earnings_call_id ''transcript'' i batch_chunks embeddings;
                       (rest, ok) = transcript_batches encode earnings_call_id transcript_chunks
                                      (i + batch_size)
                   in (rows @ rest, ok)))"
  by pat_completeness auto
termination
  by (relation "measure (\<lambda>(encode, cid, chunks, i). length chunks - i)")
     (auto simp: batch_size_def)

declare transcript_batches.simps [simp del]

definition embed_transcript ::
    "'e embedder \<Rightarrow> int \<Rightarrow> earnings_call \<Rightarrow> bool \<Rightarrow> 'e document_chunk list \<times> bool" where
  \<comment> \<open>the block \<^verbatim>\<open># Chunk and embed transcript\<close>\<close>
  "embed_transcript encode earnings_call_id call chunk_transcripts =
     (case ec_raw_transcript call of
        None \<Rightarrow> ([], True)
      | Some raw_transcript \<Rightarrow>
          if chunk_transcripts \<and> raw_transcript \<noteq> [] then
            (case chunk_text raw_transcript 1000 100 of
               Inl e \<Rightarrow> ([], False)
             | Inr transcript_chunks \<Rightarrow>
                 transcript_batches encode earnings_call_id transcript_chunks 0)
          else ([], True))"

definition summary_chunk_type :: "summary \<Rightarrow> string" where
  \<comment> \<open>\<^verbatim>\<open>f'summary_{summary.summary_type}'\<close>; a null type is formatted as \<^verbatim>\<open>None\<close>\<close>
  "summary_chunk_type s =
     ''summary_'' @ (case sm_summary_type s of None \<Rightarrow> ''None'' | Some t \<Rightarrow> t)"

fun summary_batches ::
    "'e embedder \<Rightarrow> int \<Rightarrow> summary list \<Rightarrow> 'e document_chunk list \<times> bool" where
  \<comment> \<open>\<^verbatim>\<open>for summary in summaries\<close>\<close>
  "summary_batches encode earnings_call_id [] = ([], True)"
| "summary_batches encode earnings_call_id (s # ss) =
     (case sm_content s of
        None \<Rightarrow> summary_batches encode earnings_call_id ss
      | Some content \<Rightarrow>
          if content \<noteq> [] then
            (case chunk_text content 500 100 of
               Inl e \<Rightarrow> ([], False)
             | Inr summary_chunks \<Rightarrow>
                 (case encode summary_chunks of
                    None \<Rightarrow> ([], False)
                  | Some embeddings \<Rightarrow>
                      (let rows = chunk_rows earnings_call_id (summary_chunk_type s) 0
                                    summary_chunks embeddings
                       in if insert_ok rows then
                            (let (rest, ok) = summary_batches encode earnings_call_id ss
                             in (rows @ rest, ok))
                          else ([], False))))
          else summary_batches encode earnings_call_id ss)"

definition embed_summaries ::
    "'e embedder \<Rightarrow> int \<Rightarrow> summary list \<Rightarrow> bool \<Rightarrow> 'e document_chunk list \<times> bool" where
  \<comment> \<open>the block \<^verbatim>\<open># Chunk and embed summaries if available\<close>\<close>
  "embed_summaries encode earnings_call_id all_summaries chunk_summaries =
     (if chunk_summaries then
        summary_batches encode earnings_call_id
          (filter (\<lambda>s. sm_earnings_call_id s = earnings_call_id) all_summaries)
      else ([], True))"

definition add_earnings_embeddings ::
    "'e embedder option \<Rightarrow> 'e database \<Rightarrow> int \<Rightarrow> bool \<Rightarrow> bool \<Rightarrow> 'e database \<times> nat" where
  \<comment> \<open>the store after the call and the number returned\<close>
  "add_earnings_embeddings embedder db earnings_call_id chunk_transcripts chunk_summaries =
     (case embedder of
        None \<Rightarrow> (db, 0)
      | Some encode \<Rightarrow>
          (case find (\<lambda>c. ec_id c = earnings_call_id) (earnings_calls db) of
             None \<Rightarrow> (db, 0)
           | Some call \<Rightarrow>
               (let kept = filter (\<lambda>c. dc_earnings_call_id c \<noteq> earnings_call_id)
                             (document_chunks db);
                    (transcript_rows, transcript_ok) =
                       embed_transcript encode earnings_call_id call chunk_transcripts;
                    (summary_rows, summary_ok) =
                       (if transcript_ok
                        then embed_summaries encode earnings_call_id (summaries db) chunk_summaries
                        else ([], False))
                in (db\<lparr>document_chunks := kept @ transcript_rows @ summary_rows\<rparr>,
                    if summary_ok then length transcript_rows + length summary_rows else 0))))"

definition new_rows ::
    "'e embedder \<Rightarrow> int \<Rightarrow> earnings_call \<Rightarrow> summary list \<Rightarrow> bool \<Rightarrow> bool
      \<Rightarrow> 'e document_chunk list" where
  \<comment> \<open>the rows a run of \<open>add_earnings_embeddings\<close> commits, in the order of their insertion\<close>
  "new_rows encode earnings_call_id call all_summaries chunk_transcripts chunk_summaries =
     fst (embed_transcript encode earnings_call_id call chunk_transcripts) @
     (if snd (embed_transcript encode earnings_call_id call chunk_transcripts)
      then fst (embed_summaries encode earnings_call_id all_summaries chunk_summaries) else [])"

definition news_rows :: "int \<Rightarrow> string list \<Rightarrow> 'e list \<Rightarrow> 'e news_chunk list" where
  \<comment> \<open>\<^verbatim>\<open>for i, (chunk_text, embedding) in enumerate(zip(news_chunks, embeddings))\<close>\<close>
  "news_rows news_id chunks embeddings =
     map (\<lambda>(i, chunk, embedding).
            \<lparr>nc_news_id = news_id, nc_chunk_text = chunk, nc_chunk_index = int i,
             nc_embedding = Some embedding\<rparr>)
         (enumerate 0 (zip chunks embeddings))"

definition add_news_embeddings ::
    "'e embedder option \<Rightarrow> 'e database \<Rightarrow> int \<Rightarrow> 'e database \<times> nat" where
  \<comment> \<open>the delete is committed together with the inserts, so an exception undoes it\<close>
  "add_news_embeddings embedder db news_id =
     (case embedder of
        None \<Rightarrow> (db, 0)
      | Some encode \<Rightarrow>
          (case find (\<lambda>n. fn_id n = news_id) (news_articles db) of
             None \<Rightarrow> (db, 0)
           | Some news \<Rightarrow>
               (case fn_content news of
                  None \<Rightarrow> (db, 0)
                | Some content \<Rightarrow>
                    if content = [] then (db, 0)
                    else
                      (let kept = filter (\<lambda>c. nc_news_id c \<noteq> news_id) (news_chunks db)
                       in case chunk_text content 800 100 of
                            Inl e \<Rightarrow> (db, 0)
                          | Inr chunks \<Rightarrow>
                              (case encode chunks of
                                 None \<Rightarrow> (db, 0)
                               | Some embeddings \<Rightarrow>
                                   (let rows = news_rows news_id chunks embeddings
                                    in (db\<lparr>news_chunks := kept @ rows\<rparr>, length rows)))))))"

text \<open>
  A store to run the service on: call 1 has a transcript and two summaries, call 2 has no
  transcript, one summary and a chunk left by an earlier run; article 7 has no content and
  a chunk left by an earlier run. The example embedder maps a text to its length.
\<close>

definition example_encode :: "nat embedder" where
  "example_encode texts = Some (map length texts)"

definition example_store :: "nat database" where
  "example_store =
     \<lparr>earnings_calls =
        [\<lparr>ec_id = 1, ec_company_symbol = ''DLTR'', ec_quarter = ''Q1'', ec_year = 2024,
          ec_call_date = None, ec_raw_transcript = Some ''revenue  grew''\<rparr>,
         \<lparr>ec_id = 2, ec_company_symbol = ''DLTR'', ec_quarter = ''Q2'', ec_year = 2024,
          ec_call_date = None, ec_raw_transcript = None\<rparr>],
      summaries =
        [\<lparr>sm_earnings_call_id = 1, sm_summary_type = Some ''executive'',
          sm_content = Some ''solid quarter''\<rparr>,
         \<lparr>sm_earnings_call_id = 2, sm_summary_type = Some ''executive'',
          sm_content = Some ''good quarter''\<rparr>,
         \<lparr>sm_earnings_call_id = 1, sm_summary_type = Some ''outlook_sentiment'',
          sm_content = Some ''Positive''\<rparr>],
      document_chunks =
        [\<lparr>dc_earnings_call_id = 2, dc_chunk_text = ''old text'', dc_chunk_index = 0,
          dc_chunk_type = ''transcript'', dc_embedding = Some 8\<rparr>],
      news_articles =
        [\<lparr>fn_id = 7, fn_symbol = ''DLTR'', fn_title = ''Headline'', fn_content = None,
          fn_publisher = None, fn_published_date = None, fn_url = None\<rparr>],
      news_chunks =
        [\<lparr>nc_news_id = 7, nc_chunk_text = ''stale'', nc_chunk_index = 0,
          nc_embedding = Some 5\<rparr>]\<rparr>"

text \<open>
  A second store, for the batches: the transcript of call 4 has 9101 words, which
  \<^const>\<open>chunk_text\<close> cuts into 11 chunks, one more than a batch holds; call 3 has two
  summaries of the same type.
\<close>

definition long_transcript :: string where
  "long_transcript = concat (replicate 9101 ''a '')"

definition example_batch_store :: "nat database" where
  "example_batch_store =
     \<lparr>earnings_calls =
        [\<lparr>ec_id = 4, ec_company_symbol = ''DLTR'', ec_quarter = ''Q4'', ec_year = 2024,
          ec_call_date = None, ec_raw_transcript = Some long_transcript\<rparr>,
         \<lparr>ec_id = 3, ec_company_symbol = ''DLTR'', ec_quarter = ''Q3'', ec_year = 2024,
          ec_call_date = None, ec_raw_transcript = None\<rparr>],
      summaries =
        [\<lparr>sm_earnings_call_id = 4, sm_summary_type = Some ''executive'',
          sm_content = Some ''solid quarter''\<rparr>,
         \<lparr>sm_earnings_call_id = 3, sm_summary_type = Some ''executive'',
          sm_content = Some ''first draft''\<rparr>,
         \<lparr>sm_earnings_call_id = 4, sm_summary_type = Some ''outlook_sentiment'',
          sm_content = Some ''Positive''\<rparr>,
         \<lparr>sm_earnings_call_id = 3, sm_summary_type = Some ''executive'',
          sm_content = Some ''second draft''\<rparr>],
      document_chunks = [],
      news_articles = [],
      news_chunks = []\<rparr>"

text \<open>
  An embedder that raises on the second summary of call 3.
\<close>

definition failing_encode :: "nat embedder" where
  "failing_encode texts = (if texts = [''second draft''] then None else Some (map length texts))"

section \<open>The retrieval engine: \<^verbatim>\<open>PostgresRAGService.semantic_search\<close>\<close>

text \<open>
  The database computes \<^verbatim>\<open>1 - embedding.cosine_distance(query_embedding)\<close>; the distance
  function of pgvector is a parameter \<open>cosine_distance\<close>, and a score is a real number.
  A row whose embedding is null has a null score and fails the threshold condition.
  \<^verbatim>\<open>limit\<close> is a number of rows, a natural number. \<^verbatim>\<open>company_symbol\<close> is optional, and
  the empty string is no filter either.
\<close>

datatype result_details =
    EarningsDetails string int "string option" int
  | NewsDetails string "string option" "string option" "string option"

record search_result =
  sr_content :: string
  sr_type :: string
  sr_source :: string
  sr_company_symbol :: string
  sr_similarity :: real
  sr_details :: result_details

definition sql_like_summary :: "string \<Rightarrow> bool" where
  \<comment> \<open>\<^verbatim>\<open>chunk_type LIKE 'summary_%'\<close>: the underscore stands for any one character\<close>
  "sql_like_summary chunk_type = (take 7 chunk_type = ''summary'' \<and> 8 \<le> length chunk_type)"

definition order_limit :: "('a \<Rightarrow> real) \<Rightarrow> nat \<Rightarrow> 'a list \<Rightarrow> 'a list" where
  \<comment> \<open>\<^verbatim>\<open>ORDER BY score DESC LIMIT n\<close> of a query, and \<^verbatim>\<open>sort(key=score, reverse=True)\<close>
      followed by \<^verbatim>\<open>[:n]\<close> of a list: rows of equal score keep their order, as the sort of
      Python does (the database may return them in any order)\<close>
  "order_limit score n rows = take n (sort_key (\<lambda>r. - score r) rows)"

definition row_similarity :: "'a \<times> 'b \<times> real \<Rightarrow> real" where
  \<comment> \<open>the column labelled \<^verbatim>\<open>similarity\<close> of a joined row\<close>
  "row_similarity row = snd (snd row)"

definition document_result :: "'e document_chunk \<times> earnings_call \<times> real \<Rightarrow> search_result" where
  \<comment> \<open>the dictionary appended for a row of the document query\<close>
  "document_result row =
     (case row of (c, e, similarity) \<Rightarrow>
        \<lparr>sr_content = dc_chunk_text c, sr_type = dc_chunk_type c,
         sr_source = ''earnings_call'', sr_company_symbol = ec_company_symbol e,
         sr_similarity = similarity,
         sr_details = EarningsDetails (ec_quarter e) (ec_year e) (ec_call_date e)
                        (dc_earnings_call_id c)\<rparr>)"

definition news_result :: "'e news_chunk \<times> financial_news \<times> real \<Rightarrow> search_result" where
  \<comment> \<open>the dictionary appended for a row of the news query\<close>
  "news_result row =
     (case row of (c, n, similarity) \<Rightarrow>
        \<lparr>sr_content = nc_chunk_text c, sr_type = ''news'',
         sr_source = ''financial_news'', sr_company_symbol = fn_symbol n,
         sr_similarity = similarity,
         sr_details = NewsDetails (fn_title n) (fn_publisher n) (fn_published_date n)
                        (fn_url n)\<rparr>)"

definition document_query ::
    "('e \<Rightarrow> 'e \<Rightarrow> real) \<Rightarrow> 'e database \<Rightarrow> 'e \<Rightarrow> string option \<Rightarrow> string \<Rightarrow> nat \<Rightarrow> real
      \<Rightarrow> search_result list" where
  \<comment> \<open>the query on \<^verbatim>\<open>document_chunks\<close> joined with \<^verbatim>\<open>earnings_calls\<close>, and its rows as
      result dictionaries\<close>
  "document_query cosine_distance db query_embedding company_symbol search_type limit
       similarity_threshold =
     (let joined = concat (map (\<lambda>c. map (\<lambda>e. (c, e))
                                  (filter (\<lambda>e. ec_id e = dc_earnings_call_id c) (earnings_calls db)))
                             (document_chunks db));
          by_company = (if truthy company_symbol
                        then filter (\<lambda>(c, e). Some (ec_company_symbol e) = company_symbol) joined
                        else joined);
          by_type = (if search_type = ''transcript''
                     then filter (\<lambda>(c, e). dc_chunk_type c = ''transcript'') by_company
                     else if search_type = ''summary''
                     then filter (\<lambda>(c, e). sql_like_summary (dc_chunk_type c)) by_company
                     else by_company);
          scored = concat (map (\<lambda>(c, e). case dc_embedding c of
                                            None \<Rightarrow> []
                                          | Some v \<Rightarrow> [(c, e, 1 - cosine_distance v query_embedding)])
                             by_type);
          doc_results = order_limit row_similarity limit
                          (filter (\<lambda>row. row_similarity row \<ge> similarity_threshold) scored)
      in map document_result doc_results)"

definition news_query ::
    "('e \<Rightarrow> 'e \<Rightarrow> real) \<Rightarrow> 'e database \<Rightarrow> 'e \<Rightarrow> string option \<Rightarrow> nat \<Rightarrow> real
      \<Rightarrow> search_result list" where
  \<comment> \<open>the query on \<^verbatim>\<open>news_chunks\<close> joined with \<^verbatim>\<open>financial_news\<close>\<close>
  "news_query cosine_distance db query_embedding company_symbol limit similarity_threshold =
     (let joined = concat (map (\<lambda>c. map (\<lambda>n. (c, n))
                                  (filter (\<lambda>n. fn_id n = nc_news_id c) (news_articles db)))
                             (news_chunks db));
          by_company = (if truthy company_symbol
                        then filter (\<lambda>(c, n). Some (fn_symbol n) = company_symbol) joined
                        else joined);
          scored = concat (map (\<lambda>(c, n). case nc_embedding c of
                                            None \<Rightarrow> []
                                          | Some v \<Rightarrow> [(c, n, 1 - cosine_distance v query_embedding)])
                             by_company);
          news_results = order_limit row_similarity limit
                           (filter (\<lambda>row. row_similarity row \<ge> similarity_threshold) scored)
      in map news_result news_results)"

definition partition_results ::
    "('e \<Rightarrow> 'e \<Rightarrow> real) \<Rightarrow> 'e database \<Rightarrow> 'e \<Rightarrow> string option \<Rightarrow> string \<Rightarrow> nat \<Rightarrow> real
      \<Rightarrow> search_result list" where
  \<comment> \<open>\<^verbatim>\<open>results\<close> before the final sort: the rows of the queries that \<^verbatim>\<open>search_type\<close>
      selects, those of the document chunks first\<close>
  "partition_results cosine_distance db query_embedding company_symbol search_type limit
       similarity_threshold =
     (if search_type \<in> set [''all'', ''transcript'', ''summary'']
      then document_query cosine_distance db query_embedding company_symbol search_type limit
             similarity_threshold
      else [])
     @ (if search_type \<in> set [''all'', ''news'']
        then news_query cosine_distance db query_embedding company_symbol limit
               similarity_threshold
        else [])"

definition semantic_search ::
    "'e embedder option \<Rightarrow> ('e \<Rightarrow> 'e \<Rightarrow> real) \<Rightarrow> 'e database \<Rightarrow> string \<Rightarrow> string option
      \<Rightarrow> string \<Rightarrow> nat \<Rightarrow> real \<Rightarrow> search_result list" where
  \<comment> \<open>an exception (a failing \<^verbatim>\<open>encode\<close>, no vector to take with \<^verbatim>\<open>[0]\<close>) is caught and
      gives the empty list\<close>
  "semantic_search embedder cosine_distance db query company_symbol search_type limit
       similarity_threshold =
     (case embedder of
        None \<Rightarrow> []
      | Some encode \<Rightarrow>
          (case encode [query] of
             None \<Rightarrow> []
           | Some [] \<Rightarrow> []
           | Some (query_embedding # _) \<Rightarrow>
               order_limit sr_similarity limit
                 (partition_results cosine_distance db query_embedding company_symbol search_type
                    limit similarity_threshold)))"

definition example_distance :: "nat \<Rightarrow> nat \<Rightarrow> real" where
  \<comment> \<open>a distance for the example embedder: a tenth of the difference of the lengths\<close>
  "example_distance v q = real (if q \<le> v then v - q else q - v) / 10"

section \<open>Splitting and joining\<close>

lemma is_space_blank: "is_space CHR '' ''"
  by (simp add: is_space_def)

lemma split_from_words_ok:
  "list_all (\<lambda>c. \<not> is_space c) w \<Longrightarrow> list_all word_ok (split_from w s)"
  by (induction s arbitrary: w) (auto simp: word_ok_def)

lemma str_split_words_ok: "list_all word_ok (str_split text)"
  by (simp add: str_split_def split_from_words_ok)

lemma split_from_append:
  "list_all (\<lambda>c. \<not> is_space c) v \<Longrightarrow> split_from w (v @ rest) = split_from (w @ v) rest"
  by (induction v arbitrary: w) auto

lemma split_from_word:
  assumes "word_ok x"
  shows "split_from [] (x @ CHR '' '' # rest) = x # split_from [] rest"
proof -
  have "split_from [] (x @ CHR '' '' # rest) = split_from x (CHR '' '' # rest)"
    using assms split_from_append [of x "[]"] by (simp add: word_ok_def)
  also have "\<dots> = x # split_from [] rest"
    using assms by (simp add: is_space_blank word_ok_def)
  finally show ?thesis .
qed

lemma split_from_last_word:
  assumes "word_ok x"
  shows "split_from [] x = [x]"
  using assms split_from_append [of x "[]" "[]"] by (simp add: word_ok_def)

lemma str_split_join:
  "list_all word_ok ws \<Longrightarrow> str_split (str_join '' '' ws) = ws"
proof (induction "'' ''" ws rule: str_join.induct)
  case 1
  then show ?case by (simp add: str_split_def)
next
  case (2 x)
  then show ?case by (simp add: str_split_def split_from_last_word)
next
  case (3 x y ys)
  then show ?case by (simp add: str_split_def split_from_word)
qed

section \<open>Windows of the token list\<close>

lemma take_min_length: "take (min (length xs) m) xs = take m xs"
  by (simp add: min_def)

lemma list_slice_window:
  assumes "0 \<le> i" "0 \<le> m"
  shows "list_slice ws i (i + m) = take (nat m) (drop (nat i) ws)"
proof (cases "nat i \<le> length ws")
  case True
  have "min (length ws) (nat (i + m)) - nat i = min (length (drop (nat i) ws)) (nat m)"
    using assms True by (simp add: nat_add_distrib min_def)
  then show ?thesis
    using assms True take_min_length [of "drop (nat i) ws" "nat m"]
    by (simp add: list_slice_def slice_bound_def Let_def min_absorb2)
next
  case False
  then show ?thesis
    using assms by (simp add: list_slice_def slice_bound_def)
qed

lemma window_words_ok:
  "list_all word_ok ws \<Longrightarrow> list_all word_ok (take m (drop i ws))"
  by (meson in_set_dropD in_set_takeD list_all_iff)

lemma split_window:
  assumes "list_all word_ok ws" "0 \<le> i" "0 \<le> m"
  shows "str_split (str_join '' '' (list_slice ws i (i + m))) = take (nat m) (drop (nat i) ws)"
  using assms by (simp add: list_slice_window window_words_ok str_split_join)

lemma chunk_loop_sizes:
  "list_all word_ok ws \<Longrightarrow> 0 \<le> m \<Longrightarrow> 0 \<le> i \<Longrightarrow>
   list_all (\<lambda>c. int (length (str_split c)) \<le> m) (chunk_loop ws m step i)"
proof (induction ws m step i rule: chunk_loop.induct)
  case (1 words max_chunk_size step i)
  show ?case
  proof (cases "step \<le> 0 \<or> int (length words) \<le> i")
    case True
    then show ?thesis by (subst chunk_loop.simps) simp
  next
    case False
    have "list_all (\<lambda>c. int (length (str_split c)) \<le> max_chunk_size)
           (chunk_loop words max_chunk_size step (i + step))"
      if "\<not> i + max_chunk_size \<ge> int (length words)"
      using "1.IH" [OF False that] False "1.prems" by simp
    moreover have "int (length (str_split (str_join '' '' (list_slice words i (i + max_chunk_size)))))
                   \<le> max_chunk_size"
      using "1.prems" by (simp add: split_window)
    ultimately show ?thesis
      using False by (subst chunk_loop.simps) simp
  qed
qed

lemma drop_take_drop: "k \<le> m \<Longrightarrow> drop k (take m xs) @ drop m xs = drop k xs"
proof (cases "m \<le> length xs")
  case True
  assume "k \<le> m"
  have "drop k (take m xs @ drop m xs) = drop k (take m xs) @ drop (k - length (take m xs)) (drop m xs)"
    by (simp only: drop_append)
  then show ?thesis using True \<open>k \<le> m\<close> by simp
next
  case False
  then show ?thesis by simp
qed

lemma chunk_loop_overlap_free:
  "list_all word_ok ws \<Longrightarrow> 0 \<le> k \<Longrightarrow> k < m \<Longrightarrow> 0 \<le> i \<Longrightarrow>
   concat (map (\<lambda>d. drop (nat k) (str_split d)) (chunk_loop ws m (m - k) i))
     = drop (nat i + nat k) ws"
proof (induction ws m "m - k" i rule: chunk_loop.induct)
  case (1 words max_chunk_size i)
  show ?case
  proof (cases "int (length words) \<le> i")
    case True
    then show ?thesis using "1.prems" by (subst chunk_loop.simps) simp
  next
    case False
    note live = this
    have here: "str_split (str_join '' '' (list_slice words i (i + max_chunk_size)))
                = take (nat max_chunk_size) (drop (nat i) words)"
      using "1.prems" by (simp add: split_window)
    show ?thesis
    proof (cases "i + max_chunk_size \<ge> int (length words)")
      case True
      then have "take (nat max_chunk_size) (drop (nat i) words) = drop (nat i) words"
        using "1.prems" by simp
      then show ?thesis
        using live True "1.prems" here
        by (subst chunk_loop.simps) (simp add: add.commute)
    next
      case False
      have step: "0 < max_chunk_size - k" using "1.prems" by simp
      have rest: "concat (map (\<lambda>d. drop (nat k) (str_split d))
                    (chunk_loop words max_chunk_size (max_chunk_size - k) (i + (max_chunk_size - k))))
                  = drop (nat (i + (max_chunk_size - k)) + nat k) words"
        using "1.hyps" [OF _ False] live step "1.prems" by simp
      have idx: "nat (i + (max_chunk_size - k)) + nat k = nat i + nat max_chunk_size"
        using "1.prems" by linarith
      have "drop (nat k) (take (nat max_chunk_size) (drop (nat i) words))
              @ drop (nat i + nat max_chunk_size) words
            = drop (nat i + nat k) words"
        using "1.prems" drop_take_drop [of "nat k" "nat max_chunk_size" "drop (nat i) words"]
        by (simp add: add.commute)
      then show ?thesis
        using live False step here rest idx
        by (subst chunk_loop.simps) simp
    qed
  qed
qed


lemma str_split_Nil: "str_split [] = []"
  by (simp add: str_split_def)

lemma chunk_loop_first:
  assumes "ws \<noteq> []" "0 < step"
  shows "chunk_loop ws m step 0 =
           str_join '' '' (list_slice ws 0 (0 + m)) #
           (if int (length ws) \<le> m then [] else chunk_loop ws m step step)"
  using assms by (subst chunk_loop.simps) simp

section \<open>Properties of the chunker\<close>

text \<open>
  C1. For a text with at least one token and \<open>0 \<le> overlap < max_chunk_size\<close>,
  \<^const>\<open>chunk_text\<close> returns chunks (it does not raise) from which the token sequence
  of the text is rebuilt: the first chunk whole, every later chunk without its first
  \<open>overlap\<close> tokens, concatenated in order. Every chunk has at most
  \<open>max_chunk_size\<close> tokens.
\<close>

theorem chunk_text_reconstructs:
  assumes "str_split text \<noteq> []" and "0 \<le> overlap" and "overlap < max_chunk_size"
  shows "\<exists>chunks. chunk_text text max_chunk_size overlap = Inr chunks
           \<and> reconstruct (nat overlap) chunks = str_split text
           \<and> list_all (\<lambda>c. int (length (str_split c)) \<le> max_chunk_size) chunks"
proof -
  let ?ws = "str_split text"
  let ?cs = "chunk_loop ?ws max_chunk_size (max_chunk_size - overlap) 0"
  have ok: "list_all word_ok ?ws" by (rule str_split_words_ok)
  have "text \<noteq> []" using assms(1) str_split_Nil by auto
  then have run: "chunk_text text max_chunk_size overlap = Inr ?cs"
    using assms by (simp add: chunk_text_def)
  have first: "str_split (str_join '' '' (list_slice ?ws 0 (0 + max_chunk_size)))
               = take (nat max_chunk_size) ?ws"
    using split_window [OF ok, of 0 max_chunk_size] assms by simp
  have later: "concat (map (\<lambda>d. drop (nat overlap) (str_split d))
                  (chunk_loop ?ws max_chunk_size (max_chunk_size - overlap) (max_chunk_size - overlap)))
               = drop (nat max_chunk_size) ?ws"
  proof -
    have "nat (max_chunk_size - overlap) + nat overlap = nat max_chunk_size"
      using assms by linarith
    then show ?thesis
      using chunk_loop_overlap_free [OF ok assms(2) assms(3), of "max_chunk_size - overlap"] assms
      by simp
  qed
  have "reconstruct (nat overlap) ?cs = ?ws"
  proof (cases "int (length ?ws) \<le> max_chunk_size")
    case True
    then show ?thesis
      using assms first by (simp add: chunk_loop_first)
  next
    case False
    then show ?thesis
      using assms first later by (simp add: chunk_loop_first)
  qed
  moreover have "list_all (\<lambda>c. int (length (str_split c)) \<le> max_chunk_size) ?cs"
    using chunk_loop_sizes [OF ok, of max_chunk_size 0] assms by simp
  ultimately show ?thesis using run by simp
qed

theorem chunk_text_reconstructs_witness:
  "str_split ''a b  c d e'' \<noteq> [] \<and> (0::int) \<le> 1 \<and> (1::int) < 3
   \<and> chunk_text ''a b  c d e'' 3 1 = Inr [''a b c'', ''c d e'']
   \<and> (\<exists>chunks. chunk_text ''a b  c d e'' 3 1 = Inr chunks
           \<and> reconstruct (nat 1) chunks = str_split ''a b  c d e''
           \<and> list_all (\<lambda>c. int (length (str_split c)) \<le> 3) chunks)"
proof -
  have h: "str_split ''a b  c d e'' \<noteq> []"
    by (simp add: str_split_def is_space_def)
  have c: "chunk_text ''a b  c d e'' 3 1 = Inr [''a b c'', ''c d e'']"
    by (simp add: chunk_text_def chunk_loop.simps str_split_def is_space_def list_slice_def slice_bound_def)
  show ?thesis
    using h c chunk_text_reconstructs [OF h, of 1 3] by simp
qed

text \<open>
  C7, as the code has it. The empty text gives no chunk. A text with between one and
  \<open>max_chunk_size\<close> tokens, chunked with an overlap below \<open>max_chunk_size\<close>, gives
  exactly one chunk: its tokens joined by single blanks. That chunk is the text itself
  exactly when the text is its own tokens joined by single blanks. A text that is not empty
  and has no token (whitespace only) gives no chunk, for every overlap other than
  \<open>max_chunk_size\<close>.
\<close>

theorem chunk_text_short:
  "chunk_text [] max_chunk_size overlap = Inr [] \<and>
   (str_split text \<noteq> [] \<and> int (length (str_split text)) \<le> max_chunk_size
      \<and> overlap < max_chunk_size
    \<longrightarrow> chunk_text text max_chunk_size overlap = Inr [str_join '' '' (str_split text)]
        \<and> (chunk_text text max_chunk_size overlap = Inr [text]
             \<longleftrightarrow> str_join '' '' (str_split text) = text)) \<and>
   (text \<noteq> [] \<and> str_split text = [] \<and> overlap \<noteq> max_chunk_size
    \<longrightarrow> chunk_text text max_chunk_size overlap = Inr [])"
proof (intro conjI impI)
  show "chunk_text [] max_chunk_size overlap = Inr []"
    by (simp add: chunk_text_def)
next
  assume a: "str_split text \<noteq> [] \<and> int (length (str_split text)) \<le> max_chunk_size
             \<and> overlap < max_chunk_size"
  then have "text \<noteq> []" using str_split_Nil by auto
  moreover have "0 \<le> max_chunk_size" and "length (str_split text) \<le> nat max_chunk_size"
    using a by linarith+
  then have "list_slice (str_split text) 0 (0 + max_chunk_size) = str_split text"
    using list_slice_window [of 0 max_chunk_size "str_split text"] by simp
  ultimately show one: "chunk_text text max_chunk_size overlap = Inr [str_join '' '' (str_split text)]"
    using a by (simp add: chunk_text_def chunk_loop_first)
  show "chunk_text text max_chunk_size overlap = Inr [text]
          \<longleftrightarrow> str_join '' '' (str_split text) = text"
    by (simp add: one)
next
  assume "text \<noteq> [] \<and> str_split text = [] \<and> overlap \<noteq> max_chunk_size"
  then show "chunk_text text max_chunk_size overlap = Inr []"
    by (simp add: chunk_text_def chunk_loop.simps)
qed

theorem chunk_text_short_witness:
  "str_split ''a  b'' \<noteq> [] \<and> int (length (str_split ''a  b'')) \<le> 1000 \<and> (100::int) < 1000
   \<and> chunk_text ''a  b'' 1000 100 = Inr [''a b'']
   \<and> chunk_text ''a  b'' 1000 100 \<noteq> Inr [''a  b'']
   \<and> str_split ''a b'' \<noteq> [] \<and> int (length (str_split ''a b'')) \<le> 1000
   \<and> chunk_text ''a b'' 1000 100 = Inr [''a b'']
   \<and> ''  '' \<noteq> [] \<and> str_split ''  '' = [] \<and> (100::int) \<noteq> 1000
   \<and> chunk_text ''  '' 1000 100 = Inr []"
proof -
  have h: "str_split ''a  b'' \<noteq> [] \<and> int (length (str_split ''a  b'')) \<le> 1000 \<and> (100::int) < 1000"
    by (simp add: str_split_def is_space_def)
  have j: "str_join '' '' (str_split ''a  b'') = ''a b''"
    by (simp add: str_split_def is_space_def)
  have h2: "str_split ''a b'' \<noteq> [] \<and> int (length (str_split ''a b'')) \<le> 1000 \<and> (100::int) < 1000"
    by (simp add: str_split_def is_space_def)
  have j2: "str_join '' '' (str_split ''a b'') = ''a b''"
    by (simp add: str_split_def is_space_def)
  have b: "''  '' \<noteq> [] \<and> str_split ''  '' = [] \<and> (100::int) \<noteq> 1000"
    by (simp add: str_split_def is_space_def)
  have "chunk_text ''a  b'' 1000 100 = Inr [''a b'']"
    and "chunk_text ''a  b'' 1000 100 \<noteq> Inr [''a  b'']"
    using h j chunk_text_short [of 1000 100 "''a  b''"] by simp_all
  moreover have "chunk_text ''a b'' 1000 100 = Inr [''a b'']"
    using h2 j2 chunk_text_short [of 1000 100 "''a b''"] by simp
  moreover have "chunk_text ''  '' 1000 100 = Inr []"
    using b chunk_text_short [of 1000 100 "''  ''"] by simp
  ultimately show ?thesis
    using h h2 b by (simp only: simp_thms)
qed

text \<open>
  C7 as the specification states it fails: a text of two tokens separated by two blanks
  gives one chunk that differs from the text, and a text of one blank has no token and
  gives no chunk.
\<close>

theorem chunk_text_short_counterexample:
  "int (length (str_split ''a  b'')) \<le> 1000
   \<and> chunk_text ''a  b'' 1000 100 = Inr [''a b'']
   \<and> chunk_text ''a  b'' 1000 100 \<noteq> Inr [''a  b'']
   \<and> int (length (str_split '' '')) \<le> 1000
   \<and> chunk_text '' '' 1000 100 = Inr []"
  by (simp add: chunk_text_def chunk_loop.simps str_split_def is_space_def list_slice_def slice_bound_def)

text \<open>
  C8, as the code has it. With \<open>overlap \<ge> max_chunk_size\<close> no clamping happens: an overlap
  equal to the size makes the step zero and \<^verbatim>\<open>range\<close> raises ValueError; a larger
  overlap makes the step negative, the range empty and the result the empty list.
\<close>

theorem chunk_text_overlap_not_below_size:
  assumes "text \<noteq> []" and "max_chunk_size \<le> overlap"
  shows "chunk_text text max_chunk_size overlap
           = (if overlap = max_chunk_size then Inl ValueError else Inr [])"
  using assms by (auto simp: chunk_text_def chunk_loop.simps)

theorem chunk_text_overlap_not_below_size_witness:
  "''a b c'' \<noteq> [] \<and> (2::int) \<le> 5 \<and> chunk_text ''a b c'' 2 5 = Inr []
   \<and> (2::int) \<le> 2 \<and> chunk_text ''a b c'' 2 2 = Inl ValueError"
  using chunk_text_overlap_not_below_size [of "''a b c''" 2 5]
        chunk_text_overlap_not_below_size [of "''a b c''" 2 2]
  by simp

text \<open>
  C8 as the specification states it fails: with size 2 and overlap 5 a text of three tokens
  is neither rejected nor chunked as with the clamped overlap 1; the result is empty.
\<close>

theorem chunk_text_overlap_counterexample:
  "''a b c'' \<noteq> [] \<and> (5::int) \<ge> 2
   \<and> chunk_text ''a b c'' 2 5 = Inr []
   \<and> chunk_text ''a b c'' 2 (2 - 1) = Inr [''a b'', ''b c'']"
  by (simp add: chunk_text_def chunk_loop.simps str_split_def is_space_def list_slice_def slice_bound_def)

section \<open>Properties of the sentiment classifier\<close>

lemma split_from_word_pending: "w \<noteq> [] \<Longrightarrow> split_from w s \<noteq> []"
  by (induction s arbitrary: w) auto

lemma split_from_not_blank: "\<not> list_all is_space s \<Longrightarrow> split_from w s \<noteq> []"
  by (induction s arbitrary: w) (auto simp: split_from_word_pending)

lemma strip_chars_keeps_other:
  assumes "strip_chars p s \<noteq> []"
  shows "\<not> list_all p (strip_chars p s)"
proof -
  let ?u = "dropWhile p (rev (dropWhile p s))"
  have "?u \<noteq> []" using assms by (simp add: strip_chars_def)
  then have "\<not> p (hd ?u)" and "hd ?u \<in> set ?u"
    by (simp_all add: hd_dropWhile)
  then show ?thesis
    by (auto simp: strip_chars_def list_all_iff)
qed

lemma stripped_has_word: "str_strip g \<noteq> [] \<Longrightarrow> str_split (str_strip g) \<noteq> []"
  unfolding str_strip_def str_split_def
  by (rule split_from_not_blank) (rule strip_chars_keeps_other)

lemma keyword_fallback_cases:
  "keyword_fallback p n u \<in> set [''Positive'', ''Negative'', ''Neutral'']"
  by (simp add: keyword_fallback_def)

lemma valid_sentiments_words:
  "list_all (\<lambda>w. w \<noteq> [] \<and> str_split w = [w]) valid_sentiments"
  by (simp add: valid_sentiments_def str_split_def is_space_def)

lemma keyword_fallback_valid: "keyword_fallback p n u \<in> set valid_sentiments"
  by (simp add: keyword_fallback_def valid_sentiments_def)

lemma sentiment_in_vocabulary:
  "\<exists>w. determine_outlook_sentiment t g = Inr w \<and> w \<in> set valid_sentiments"
proof (cases "str_strip g = []")
  case True
  then show ?thesis
    by (simp add: determine_outlook_sentiment_def Let_def keyword_fallback_valid)
next
  case False
  then obtain w ws where "str_split (str_strip g) = w # ws"
    using stripped_has_word [OF False] by (cases "str_split (str_strip g)") auto
  then show ?thesis
    using False by (simp add: determine_outlook_sentiment_def Let_def keyword_fallback_valid)
qed

text \<open>
  C10. For every transcript and every answer of the model, \<^const>\<open>determine_outlook_sentiment\<close>
  returns (it does not raise) a word of \<^const>\<open>valid_sentiments\<close>, which is non-empty and
  one token. The vocabulary has twelve distinct words, the six options of the prompt are a
  proper subset of it, and the keyword fallback gives Positive, Negative or Neutral only.
\<close>

theorem sentiment_closed_vocabulary:
  "(\<exists>w. determine_outlook_sentiment transcript generated = Inr w
        \<and> w \<in> set valid_sentiments \<and> w \<noteq> [] \<and> str_split w = [w])
   \<and> set valid_sentiments =
       {''Positive'', ''Negative'', ''Neutral'', ''Cautious'', ''Bullish'', ''Bearish'',
        ''Optimistic'', ''Pessimistic'', ''Mixed'', ''Strong'', ''Weak'', ''Confident''}
   \<and> distinct valid_sentiments \<and> length valid_sentiments = 12
   \<and> distinct prompt_options \<and> length prompt_options = 6
   \<and> set prompt_options \<subset> set valid_sentiments
   \<and> keyword_fallback p n u \<in> {''Positive'', ''Negative'', ''Neutral''}"
proof -
  obtain w where w: "determine_outlook_sentiment transcript generated = Inr w"
    "w \<in> set valid_sentiments"
    using sentiment_in_vocabulary by blast
  then have "w \<noteq> [] \<and> str_split w = [w]"
    using valid_sentiments_words by (simp add: list_all_iff)
  with w have returns: "\<exists>w. determine_outlook_sentiment transcript generated = Inr w
        \<and> w \<in> set valid_sentiments \<and> w \<noteq> [] \<and> str_split w = [w]"
    by simp
  have "set prompt_options \<subseteq> set valid_sentiments"
    by (simp add: prompt_options_def valid_sentiments_def)
  moreover have "''Mixed'' \<in> set valid_sentiments" "''Mixed'' \<notin> set prompt_options"
    by (simp_all add: prompt_options_def valid_sentiments_def)
  ultimately have larger: "set prompt_options \<subset> set valid_sentiments"
    by (metis psubsetI)
  have fallback: "keyword_fallback p n u \<in> {''Positive'', ''Negative'', ''Neutral''}"
    using keyword_fallback_cases [of p n u] by simp
  have sizes: "distinct valid_sentiments \<and> length valid_sentiments = 12
      \<and> distinct prompt_options \<and> length prompt_options = 6"
    by (simp add: valid_sentiments_def prompt_options_def)
  have words: "set valid_sentiments =
       {''Positive'', ''Negative'', ''Neutral'', ''Cautious'', ''Bullish'', ''Bearish'',
        ''Optimistic'', ''Pessimistic'', ''Mixed'', ''Strong'', ''Weak'', ''Confident''}"
    by (simp add: valid_sentiments_def)
  from returns words sizes larger fallback show ?thesis
    by (simp only: simp_thms)
qed

lemma determine_fallback:
  assumes "str_strip generated = []
           \<or> str_title (strip_chars (\<lambda>c. c \<in> set ''.,!?'') (hd (str_split (str_strip generated))))
               \<notin> set valid_sentiments"
  shows "determine_outlook_sentiment raw_transcript generated =
           Inr (keyword_fallback (keyword_count positive_keywords (str_lower raw_transcript))
                                 (keyword_count negative_keywords (str_lower raw_transcript))
                                 (keyword_count neutral_keywords (str_lower raw_transcript)))"
proof (cases "str_strip generated = []")
  case True
  then show ?thesis by (simp add: determine_outlook_sentiment_def Let_def)
next
  case False
  then obtain w ws where "str_split (str_strip generated) = w # ws"
    using stripped_has_word [OF False] by (cases "str_split (str_strip generated)") auto
  then show ?thesis
    using False assms by (simp add: determine_outlook_sentiment_def Let_def)
qed

text \<open>
  C5, as the code has it. When the answer of the model is empty after stripping, or its
  first word, cleaned and title-cased, is not in the vocabulary, the result is decided by
  three counts on the lower-cased transcript: for each keyword set, the number of its
  keywords that occur in the text as a substring, each keyword counted once however often
  it occurs. The label of the strictly highest count is returned, Neutral otherwise; counts
  of 5, 1 and 2 give Positive.
\<close>

theorem sentiment_keyword_fallback:
  assumes "str_strip generated = []
           \<or> str_title (strip_chars (\<lambda>c. c \<in> set ''.,!?'') (hd (str_split (str_strip generated))))
               \<notin> set valid_sentiments"
    and "p = keyword_count positive_keywords (str_lower raw_transcript)"
    and "n = keyword_count negative_keywords (str_lower raw_transcript)"
    and "u = keyword_count neutral_keywords (str_lower raw_transcript)"
  shows "determine_outlook_sentiment raw_transcript generated =
           Inr (if n < p \<and> u < p then ''Positive''
                else if p < n \<and> u < n then ''Negative'' else ''Neutral'')
         \<and> (p = 5 \<and> n = 1 \<and> u = 2
              \<longrightarrow> determine_outlook_sentiment raw_transcript generated = Inr ''Positive'')"
  using determine_fallback [OF assms(1), of raw_transcript] assms(2-4)
  by (simp add: keyword_fallback_def)

lemma example_counts:
  "keyword_count positive_keywords (str_lower ''Strong Growth, solid progress: Confident. Risk? stable, steady'') = 5"
  "keyword_count negative_keywords (str_lower ''Strong Growth, solid progress: Confident. Risk? stable, steady'') = 1"
  "keyword_count neutral_keywords (str_lower ''Strong Growth, solid progress: Confident. Risk? stable, steady'') = 2"
  by (simp_all add: keyword_count_def positive_keywords_def negative_keywords_def
      neutral_keywords_def str_lower_def lower_char_def is_upper_def)

theorem sentiment_keyword_fallback_witness:
  "str_strip [] = []
   \<and> 5 = keyword_count positive_keywords (str_lower ''Strong Growth, solid progress: Confident. Risk? stable, steady'')
   \<and> 1 = keyword_count negative_keywords (str_lower ''Strong Growth, solid progress: Confident. Risk? stable, steady'')
   \<and> 2 = keyword_count neutral_keywords (str_lower ''Strong Growth, solid progress: Confident. Risk? stable, steady'')
   \<and> determine_outlook_sentiment ''Strong Growth, solid progress: Confident. Risk? stable, steady'' []
       = Inr ''Positive''
   \<and> str_strip ''Great!'' \<noteq> []
   \<and> str_title (strip_chars (\<lambda>c. c \<in> set ''.,!?'') (hd (str_split (str_strip ''Great!''))))
       \<notin> set valid_sentiments
   \<and> determine_outlook_sentiment ''Strong Growth, solid progress: Confident. Risk? stable, steady'' ''Great!''
       = Inr ''Positive''"
proof -
  let ?T = "''Strong Growth, solid progress: Confident. Risk? stable, steady''"
  note counts = example_counts [symmetric]
  have a: "str_strip [] = []"
    by (simp add: str_strip_def strip_chars_def)
  have b: "str_strip ''Great!'' \<noteq> []"
    by (simp add: str_strip_def strip_chars_def is_space_def)
  have c: "str_title (strip_chars (\<lambda>c. c \<in> set ''.,!?'') (hd (str_split (str_strip ''Great!''))))
       \<notin> set valid_sentiments"
    by (simp add: str_strip_def strip_chars_def str_split_def is_space_def str_title_def
        upper_char_def lower_char_def is_upper_def is_lower_def valid_sentiments_def)
  have d: "determine_outlook_sentiment ?T [] = Inr ''Positive''"
    using sentiment_keyword_fallback [OF disjI1 [OF a] counts] by simp
  have e: "determine_outlook_sentiment ?T ''Great!'' = Inr ''Positive''"
    using sentiment_keyword_fallback [OF disjI2 [OF c] counts] by simp
  from a b c d e counts show ?thesis
    by (simp only: simp_thms)
qed

lemma repeated_counts:
  "spec_occurrence_count positive_keywords (str_lower ''growth growth growth growth growth risk stable steady'') = 5"
  "spec_occurrence_count negative_keywords (str_lower ''growth growth growth growth growth risk stable steady'') = 1"
  "spec_occurrence_count neutral_keywords (str_lower ''growth growth growth growth growth risk stable steady'') = 2"
  "keyword_count positive_keywords (str_lower ''growth growth growth growth growth risk stable steady'') = 1"
  "keyword_count negative_keywords (str_lower ''growth growth growth growth growth risk stable steady'') = 1"
  "keyword_count neutral_keywords (str_lower ''growth growth growth growth growth risk stable steady'') = 2"
  by (simp_all add: spec_occurrence_count_def keyword_count_def positive_keywords_def
      negative_keywords_def neutral_keywords_def str_lower_def lower_char_def is_upper_def)

text \<open>
  C5 as the specification states it fails when "occurrences" are counted: a transcript in
  which one positive keyword occurs five times, one negative keyword once and two neutral
  keywords once each has 5, 1 and 2 occurrences, while the code counts 1, 1 and 2 keywords
  and answers Neutral.
\<close>

theorem sentiment_occurrences_counterexample:
  "spec_occurrence_count positive_keywords (str_lower ''growth growth growth growth growth risk stable steady'') = 5
   \<and> spec_occurrence_count negative_keywords (str_lower ''growth growth growth growth growth risk stable steady'') = 1
   \<and> spec_occurrence_count neutral_keywords (str_lower ''growth growth growth growth growth risk stable steady'') = 2
   \<and> determine_outlook_sentiment ''growth growth growth growth growth risk stable steady'' [] = Inr ''Neutral''"
proof -
  let ?T = "''growth growth growth growth growth risk stable steady''"
  have a: "str_strip [] = []"
    by (simp add: str_strip_def strip_chars_def)
  have k: "keyword_fallback 1 1 2 = ''Neutral''"
    by (simp add: keyword_fallback_def)
  have "determine_outlook_sentiment ?T [] = Inr (keyword_fallback 1 1 2)"
    using determine_fallback [OF disjI1 [OF a], of ?T]
    by (simp only: repeated_counts)
  then have "determine_outlook_sentiment ?T [] = Inr ''Neutral''"
    by (simp only: k)
  with repeated_counts(1-3) show ?thesis
    by (simp only: simp_thms)
qed

section \<open>Properties of the vector store\<close>

lemma chunk_rows_owner:
  "list_all (\<lambda>r. dc_earnings_call_id r = cid) (chunk_rows cid ty start cs es)"
  by (simp add: chunk_rows_def list_all_iff case_prod_beta)

lemma transcript_batches_owner:
  "list_all (\<lambda>r. dc_earnings_call_id r = cid) (fst (transcript_batches enc cid cs i))"
proof (induction enc cid cs i rule: transcript_batches.induct)
  case (1 encode earnings_call_id transcript_chunks i)
  show ?case
  proof (cases "length transcript_chunks \<le> i")
    case True
    then show ?thesis by (subst transcript_batches.simps) simp
  next
    case False
    show ?thesis
    proof (cases "encode (take batch_size (drop i transcript_chunks))")
      case None
      then show ?thesis using False by (subst transcript_batches.simps) simp
    next
      case (Some embeddings)
      then show ?thesis
        using False "1.IH" [OF False refl Some refl]
        by (subst transcript_batches.simps) (simp add: chunk_rows_owner case_prod_beta)
    qed
  qed
qed

lemma summary_batches_owner:
  "list_all (\<lambda>r. dc_earnings_call_id r = cid) (fst (summary_batches enc cid ss))"
  by (induction ss)
     (auto simp: chunk_rows_owner case_prod_beta Let_def split: option.splits sum.splits)

lemma embed_transcript_owner:
  "list_all (\<lambda>r. dc_earnings_call_id r = cid) (fst (embed_transcript enc cid call ct))"
  by (auto simp: embed_transcript_def transcript_batches_owner split: option.splits sum.splits)

lemma embed_summaries_owner:
  "list_all (\<lambda>r. dc_earnings_call_id r = cid) (fst (embed_summaries enc cid srows cs))"
  by (simp add: embed_summaries_def summary_batches_owner)

lemma filter_others_owned:
  "list_all (\<lambda>r. dc_earnings_call_id r = cid) rows \<Longrightarrow>
   filter (\<lambda>c. dc_earnings_call_id c \<noteq> cid) rows = []"
  by (induction rows) auto

lemma add_earnings_embeddings_found:
  assumes "find (\<lambda>c. ec_id c = cid) (earnings_calls db) = Some call"
  shows "add_earnings_embeddings (Some enc) db cid ct cs =
           (db\<lparr>document_chunks :=
                 filter (\<lambda>c. dc_earnings_call_id c \<noteq> cid) (document_chunks db)
                 @ new_rows enc cid call (summaries db) ct cs\<rparr>,
            if snd (embed_transcript enc cid call ct) \<and> snd (embed_summaries enc cid (summaries db) cs)
            then length (new_rows enc cid call (summaries db) ct cs) else 0)"
  using assms
  by (simp add: add_earnings_embeddings_def new_rows_def Let_def case_prod_beta)

lemma new_rows_owner:
  "list_all (\<lambda>r. dc_earnings_call_id r = cid) (new_rows enc cid call srows ct cs)"
  by (simp add: new_rows_def embed_transcript_owner embed_summaries_owner)

lemma add_earnings_embeddings_again:
  "add_earnings_embeddings embedder
      (fst (add_earnings_embeddings embedder db cid ct cs)) cid ct cs
   = add_earnings_embeddings embedder db cid ct cs"
proof (cases embedder)
  case None
  then show ?thesis by (simp add: add_earnings_embeddings_def)
next
  case (Some enc)
  show ?thesis
  proof (cases "find (\<lambda>c. ec_id c = cid) (earnings_calls db)")
    case None
    then show ?thesis using Some by (simp add: add_earnings_embeddings_def)
  next
    case (Some call)
    let ?kept = "filter (\<lambda>c. dc_earnings_call_id c \<noteq> cid) (document_chunks db)"
    let ?new = "new_rows enc cid call (summaries db) ct cs"
    let ?db1 = "db\<lparr>document_chunks := ?kept @ ?new\<rparr>"
    have found: "find (\<lambda>c. ec_id c = cid) (earnings_calls ?db1) = Some call"
      using Some by simp
    have "filter (\<lambda>c. dc_earnings_call_id c \<noteq> cid) (document_chunks ?db1) = ?kept"
      using filter_others_owned [OF new_rows_owner, of cid enc call "summaries db" ct cs]
      by simp
    then show ?thesis
      using \<open>embedder = Some enc\<close>
      by (simp add: add_earnings_embeddings_found [OF Some]
                    add_earnings_embeddings_found [OF found])
  qed
qed

lemma map_enumerate_fst:
  "map (\<lambda>p. h (fst p)) (enumerate 0 xs) = map h [0..<length xs]"
proof -
  have "map (\<lambda>p. h (fst p)) (enumerate 0 xs) = map h (map fst (enumerate 0 xs))"
    by (simp only: map_map o_def)
  then show ?thesis by simp
qed

lemma map_enumerate_snd:
  "map (\<lambda>p. h (snd p)) (enumerate 0 xs) = map h xs"
proof -
  have "map (\<lambda>p. h (snd p)) (enumerate 0 xs) = map h (map snd (enumerate 0 xs))"
    by (simp only: map_map o_def)
  then show ?thesis by simp
qed

lemma chunk_rows_index:
  assumes "length es = length cs"
  shows "map dc_chunk_index (chunk_rows cid ty start cs es) = map int [start..<start + length cs]"
proof -
  have "map dc_chunk_index (chunk_rows cid ty start cs es)
        = map (\<lambda>p. int (start + fst p)) (enumerate 0 (zip cs es))"
    by (simp add: chunk_rows_def case_prod_beta)
  also have "\<dots> = map (\<lambda>j. int (start + j)) [0..<length (zip cs es)]"
    by (rule map_enumerate_fst)
  also have "\<dots> = map int (map (\<lambda>j. start + j) [0..<length cs])"
    using assms by (simp add: o_def)
  also have "\<dots> = map int [start..<start + length cs]"
    by (simp only: map_add_upt add.commute)
  finally show ?thesis .
qed

lemma chunk_rows_text:
  assumes "length es = length cs"
  shows "map dc_chunk_text (chunk_rows cid ty start cs es) = cs"
proof -
  have "map dc_chunk_text (chunk_rows cid ty start cs es)
        = map (\<lambda>p. fst (snd p)) (enumerate 0 (zip cs es))"
    by (simp add: chunk_rows_def case_prod_beta)
  also have "\<dots> = map fst (zip cs es)"
    by (rule map_enumerate_snd)
  also have "\<dots> = cs"
    using assms by simp
  finally show ?thesis .
qed

lemma chunk_rows_type:
  "list_all (\<lambda>r. dc_chunk_type r = ty) (chunk_rows cid ty start cs es)"
  by (simp add: chunk_rows_def list_all_iff case_prod_beta)

lemma upt_join: "i \<le> j \<Longrightarrow> j \<le> k \<Longrightarrow> [i..<j] @ [j..<k] = [i..<k]"
  by (metis le_Suc_ex upt_add_eq_append)

lemma transcript_batches_total:
  assumes total: "\<And>texts. \<exists>vs. enc texts = Some vs \<and> length vs = length texts"
  shows "snd (transcript_batches enc cid cs i)
         \<and> map dc_chunk_index (fst (transcript_batches enc cid cs i)) = map int [i..<length cs]
         \<and> map dc_chunk_text (fst (transcript_batches enc cid cs i)) = drop i cs
         \<and> list_all (\<lambda>r. dc_chunk_type r = ''transcript'') (fst (transcript_batches enc cid cs i))"
  using total
proof (induction enc cid cs i rule: transcript_batches.induct)
  case (1 encode earnings_call_id transcript_chunks i)
  show ?case
  proof (cases "length transcript_chunks \<le> i")
    case True
    then show ?thesis by (subst (1 2 3 4) transcript_batches.simps) simp
  next
    case False
    let ?batch = "take batch_size (drop i transcript_chunks)"
    obtain embeddings where enc: "encode ?batch = Some embeddings"
      and len: "length embeddings = length ?batch"
      using "1.prems" by blast
    let ?rows = "chunk_rows earnings_call_id ''transcript'' i ?batch embeddings"
    let ?rest = "transcript_batches encode earnings_call_id transcript_chunks (i + batch_size)"
    have unfold: "transcript_batches encode earnings_call_id transcript_chunks i
                  = (?rows @ fst ?rest, snd ?rest)"
      using False enc by (subst transcript_batches.simps) (simp add: case_prod_beta)
    note IH = "1.IH" [OF False refl enc refl "1.prems"]
    have idx: "map dc_chunk_index ?rows = map int [i..<i + length ?batch]"
      using len by (rule chunk_rows_index)
    have IH_ok: "snd ?rest"
      and IH_idx: "map dc_chunk_index (fst ?rest) = map int [i + batch_size..<length transcript_chunks]"
      and IH_txt: "map dc_chunk_text (fst ?rest) = drop (i + batch_size) transcript_chunks"
      and IH_ty: "list_all (\<lambda>r. dc_chunk_type r = ''transcript'') (fst ?rest)"
      using IH by blast+
    have join: "[i..<i + length ?batch] @ [i + batch_size..<length transcript_chunks]
          = [i..<length transcript_chunks]"
    proof (cases "i + batch_size \<le> length transcript_chunks")
      case True
      then have "length ?batch = batch_size" by simp
      then show ?thesis
        using True upt_join [of i "i + batch_size" "length transcript_chunks"] by simp
    next
      case False
      then have "i + length ?batch = length transcript_chunks"
        using \<open>\<not> length transcript_chunks \<le> i\<close> by simp
      then show ?thesis
        using False by simp
    qed
    have "map dc_chunk_index (?rows @ fst ?rest)
          = map int ([i..<i + length ?batch] @ [i + batch_size..<length transcript_chunks])"
      by (simp only: map_append idx IH_idx)
    then have indices: "map dc_chunk_index (?rows @ fst ?rest)
                        = map int [i..<length transcript_chunks]"
      by (simp only: join)
    have "?batch @ drop (i + batch_size) transcript_chunks = drop i transcript_chunks"
      by (metis add.commute append_take_drop_id drop_drop)
    then have texts: "map dc_chunk_text (?rows @ fst ?rest) = drop i transcript_chunks"
      by (simp only: map_append IH_txt chunk_rows_text [OF len])
    have types: "list_all (\<lambda>r. dc_chunk_type r = ''transcript'') (?rows @ fst ?rest)"
      using IH_ty by (simp add: chunk_rows_type)
    show ?thesis
      using IH_ok indices texts types by (simp only: unfold fst_conv snd_conv simp_thms)
  qed
qed

lemma chunk_text_returns:
  "max_chunk_size \<noteq> overlap \<Longrightarrow> \<exists>chunks. chunk_text content max_chunk_size overlap = Inr chunks"
  by (simp add: chunk_text_def Let_def)



lemma filter_type_other:
  "list_all (\<lambda>r. dc_chunk_type r \<in> T) rows \<Longrightarrow> ty \<notin> T \<Longrightarrow>
   filter (\<lambda>r. dc_chunk_type r = ty) rows = []"
  by (induction rows) auto

lemma chunk_rows_insert_ok:
  "length ty \<le> 50 \<Longrightarrow> insert_ok (chunk_rows cid ty start cs es)"
  by (auto simp: insert_ok_def chunk_rows_def list_all_iff)

lemma summary_batches_step:
  assumes "sm_content s = Some content" "content \<noteq> []"
    and "chunk_text content 500 100 = Inr chunks" "enc chunks = Some embs"
    and "insert_ok (chunk_rows cid (summary_chunk_type s) 0 chunks embs)"
  shows "summary_batches enc cid (s # ss) =
           (chunk_rows cid (summary_chunk_type s) 0 chunks embs @ fst (summary_batches enc cid ss),
            snd (summary_batches enc cid ss))"
  using assms by (simp add: case_prod_beta Let_def)

lemma summary_batches_skip:
  assumes "\<not> truthy (sm_content s)"
  shows "summary_batches enc cid (s # ss) = summary_batches enc cid ss"
  using assms by (simp add: truthy_def split: option.splits)

lemma summary_batches_fail:
  assumes "sm_content s = Some content" "content \<noteq> []"
    and "chunk_text content 500 100 = Inr chunks" "enc chunks = None"
  shows "summary_batches enc cid (s # ss) = ([], False)"
  using assms by simp

lemma summary_batches_reject:
  assumes "sm_content s = Some content" "content \<noteq> []"
    and "chunk_text content 500 100 = Inr chunks" "enc chunks = Some embs"
    and "\<not> insert_ok (chunk_rows cid (summary_chunk_type s) 0 chunks embs)"
  shows "summary_batches enc cid (s # ss) = ([], False)"
  using assms by (simp add: Let_def)

declare summary_batches.simps(2) [simp del]

lemma summary_batches_types:
  "list_all (\<lambda>r. dc_chunk_type r \<in> summary_chunk_type ` set (filter (\<lambda>s. truthy (sm_content s)) ss))
     (fst (summary_batches enc cid ss))"
proof (induction ss)
  case Nil
  then show ?case by simp
next
  case (Cons s ss)
  let ?T = "summary_chunk_type ` set (filter (\<lambda>s. truthy (sm_content s)) ss)"
  show ?case
  proof (cases "truthy (sm_content s)")
    case False
    then show ?thesis using Cons by (simp add: summary_batches_skip)
  next
    case True
    then obtain content where c: "sm_content s = Some content" "content \<noteq> []"
      by (auto simp: truthy_def split: option.splits)
    obtain chunks where ch: "chunk_text content 500 100 = Inr chunks"
      using chunk_text_returns [of 500 100 content] by auto
    show ?thesis
    proof (cases "enc chunks")
      case None
      then show ?thesis
        using summary_batches_fail [where enc = enc, OF c ch None] by simp
    next
      case (Some embs)
      show ?thesis
      proof (cases "insert_ok (chunk_rows cid (summary_chunk_type s) 0 chunks embs)")
        case False
        then show ?thesis
          using summary_batches_reject [where enc = enc, OF c ch Some False] by simp
      next
        case ok: True
        have "list_all (\<lambda>r. dc_chunk_type r \<in> insert (summary_chunk_type s) ?T)
                (chunk_rows cid (summary_chunk_type s) 0 chunks embs)"
          using chunk_rows_type [of "summary_chunk_type s" cid 0 chunks embs]
          by (simp add: list_all_iff)
        moreover have "list_all (\<lambda>r. dc_chunk_type r \<in> insert (summary_chunk_type s) ?T)
                (fst (summary_batches enc cid ss))"
          using Cons by (simp add: list_all_iff)
        ultimately show ?thesis
          using True by (simp add: summary_batches_step [where enc = enc, OF c ch Some ok])
      qed
    qed
  qed
qed


lemma summary_chunk_type_not_transcript: "summary_chunk_type s \<noteq> ''transcript''"
  by (simp add: summary_chunk_type_def)


lemma embed_transcript_total:
  assumes total: "\<And>texts. \<exists>vs. enc texts = Some vs \<and> length vs = length texts"
  shows "snd (embed_transcript enc cid call ct)"
    and "list_all (\<lambda>r. dc_chunk_type r = ''transcript'') (fst (embed_transcript enc cid call ct))"
    and "map dc_chunk_index (fst (embed_transcript enc cid call ct))
           = map int [0..<length (fst (embed_transcript enc cid call ct))]"
    and "ct \<Longrightarrow> ec_raw_transcript call = Some raw \<Longrightarrow> raw \<noteq> [] \<Longrightarrow>
           Inr (map dc_chunk_text (fst (embed_transcript enc cid call ct))) = chunk_text raw 1000 100"
proof -
  have batches: "snd (transcript_batches enc cid chunks 0)
      \<and> list_all (\<lambda>r. dc_chunk_type r = ''transcript'') (fst (transcript_batches enc cid chunks 0))
      \<and> map dc_chunk_index (fst (transcript_batches enc cid chunks 0))
           = map int [0..<length (fst (transcript_batches enc cid chunks 0))]
      \<and> map dc_chunk_text (fst (transcript_batches enc cid chunks 0)) = chunks" for chunks
  proof -
    note t = transcript_batches_total [of enc cid chunks 0, OF total]
    from t have "length (map dc_chunk_index (fst (transcript_batches enc cid chunks 0)))
                 = length (map int [0..<length chunks])"
      by simp
    then have "length (fst (transcript_batches enc cid chunks 0)) = length chunks"
      by simp
    then show ?thesis using t by simp
  qed
  have returns: "\<exists>chunks. chunk_text raw 1000 100 = Inr chunks" for raw
    by (rule chunk_text_returns) simp
  have no_error: "chunk_text raw 1000 100 \<noteq> Inl e" for raw e
    using returns [of raw] by auto
  show "snd (embed_transcript enc cid call ct)"
    using batches no_error
    by (auto simp: embed_transcript_def split: option.splits sum.splits)
  show "list_all (\<lambda>r. dc_chunk_type r = ''transcript'') (fst (embed_transcript enc cid call ct))"
    using batches by (auto simp: embed_transcript_def split: option.splits sum.splits)
  show "map dc_chunk_index (fst (embed_transcript enc cid call ct))
           = map int [0..<length (fst (embed_transcript enc cid call ct))]"
    using batches by (auto simp: embed_transcript_def split: option.splits sum.splits)
  show "Inr (map dc_chunk_text (fst (embed_transcript enc cid call ct))) = chunk_text raw 1000 100"
    if "ct" "ec_raw_transcript call = Some raw" "raw \<noteq> []"
  proof -
    obtain chunks where ch: "chunk_text raw 1000 100 = Inr chunks"
      using returns by blast
    then show ?thesis
      using that batches [of chunks] by (simp add: embed_transcript_def)
  qed
qed




lemma own_rows_after:
  assumes "find (\<lambda>c. ec_id c = cid) (earnings_calls db) = Some call"
  shows "filter (\<lambda>c. dc_earnings_call_id c = cid)
           (document_chunks (fst (add_earnings_embeddings (Some enc) db cid ct cs)))
         = new_rows enc cid call (summaries db) ct cs"
proof -
  have "filter (\<lambda>c. dc_earnings_call_id c = cid) (new_rows enc cid call (summaries db) ct cs)
        = new_rows enc cid call (summaries db) ct cs"
    using new_rows_owner [of cid enc call "summaries db" ct cs]
    by (simp add: list_all_iff)
  then show ?thesis
    by (simp add: add_earnings_embeddings_found [OF assms])
qed

lemma summary_batches_completes:
  assumes total: "\<And>texts. \<exists>vs. enc texts = Some vs \<and> length vs = length texts"
  shows "\<forall>s\<in>set ss. length (summary_chunk_type s) \<le> 50 \<Longrightarrow> snd (summary_batches enc cid ss)"
proof (induction ss)
  case Nil
  then show ?case by simp
next
  case (Cons s ss)
  then have rest: "snd (summary_batches enc cid ss)"
    by simp
  show ?case
  proof (cases "truthy (sm_content s)")
    case False
    then show ?thesis using rest by (simp add: summary_batches_skip)
  next
    case True
    then obtain content where c: "sm_content s = Some content" "content \<noteq> []"
      by (auto simp: truthy_def split: option.splits)
    obtain chunks where ch: "chunk_text content 500 100 = Inr chunks"
      using chunk_text_returns [of 500 100 content] by auto
    obtain embs where e: "enc chunks = Some embs"
      using total by blast
    have "length (summary_chunk_type s) \<le> 50"
      using Cons.prems by simp
    then have ok: "insert_ok (chunk_rows cid (summary_chunk_type s) 0 chunks embs)"
      by (rule chunk_rows_insert_ok)
    show ?thesis
      using rest by (simp add: summary_batches_step [where enc = enc, OF c ch e ok])
  qed
qed

lemma run_completes:
  assumes total: "\<And>texts. \<exists>vs. enc texts = Some vs \<and> length vs = length texts"
    and fits: "\<forall>s\<in>set srows. sm_earnings_call_id s = cid \<longrightarrow> length (summary_chunk_type s) \<le> 50"
  shows "snd (embed_transcript enc cid call ct) \<and> snd (embed_summaries enc cid srows cs)"
proof -
  have "\<forall>s\<in>set (filter (\<lambda>s. sm_earnings_call_id s = cid) srows). length (summary_chunk_type s) \<le> 50"
    using fits by simp
  then have "snd (summary_batches enc cid (filter (\<lambda>s. sm_earnings_call_id s = cid) srows))"
    by (rule summary_batches_completes [where enc = enc, OF total])
  then show ?thesis
    using embed_transcript_total(1) [where enc = enc, OF total]
    by (simp add: embed_summaries_def)
qed

lemma other_rows_after:
  assumes "find (\<lambda>c. ec_id c = cid) (earnings_calls db) = Some call"
  shows "filter (\<lambda>c. dc_earnings_call_id c \<noteq> cid)
           (document_chunks (fst (add_earnings_embeddings (Some enc) db cid ct cs)))
         = filter (\<lambda>c. dc_earnings_call_id c \<noteq> cid) (document_chunks db)"
  using filter_others_owned [OF new_rows_owner, of cid enc call "summaries db" ct cs]
  by (simp add: add_earnings_embeddings_found [OF assms])

lemma count_after:
  assumes "find (\<lambda>c. ec_id c = cid) (earnings_calls db) = Some call"
  shows "snd (add_earnings_embeddings (Some enc) db cid ct cs)
         = (if snd (embed_transcript enc cid call ct) \<and> snd (embed_summaries enc cid (summaries db) cs)
            then length (filter (\<lambda>c. dc_earnings_call_id c = cid)
                   (document_chunks (fst (add_earnings_embeddings (Some enc) db cid ct cs))))
            else 0)"
  by (simp only: own_rows_after [OF assms]) (simp add: add_earnings_embeddings_found [OF assms])

lemma example_encode_total:
  "\<exists>vs. example_encode texts = Some vs \<and> length vs = length texts"
  by (simp add: example_encode_def)

lemma example_run_1:
  "add_earnings_embeddings (Some example_encode) example_store 1 True True =
     (example_store\<lparr>document_chunks :=
        [\<lparr>dc_earnings_call_id = 2, dc_chunk_text = ''old text'', dc_chunk_index = 0,
          dc_chunk_type = ''transcript'', dc_embedding = Some 8\<rparr>,
         \<lparr>dc_earnings_call_id = 1, dc_chunk_text = ''revenue grew'', dc_chunk_index = 0,
          dc_chunk_type = ''transcript'', dc_embedding = Some 12\<rparr>,
         \<lparr>dc_earnings_call_id = 1, dc_chunk_text = ''solid quarter'', dc_chunk_index = 0,
          dc_chunk_type = ''summary_executive'', dc_embedding = Some 13\<rparr>,
         \<lparr>dc_earnings_call_id = 1, dc_chunk_text = ''Positive'', dc_chunk_index = 0,
          dc_chunk_type = ''summary_outlook_sentiment'', dc_embedding = Some 8\<rparr>]\<rparr>, 3)"
  by (simp add: add_earnings_embeddings_def example_store_def example_encode_def
      embed_transcript_def embed_summaries_def transcript_batches.simps summary_batches.simps
      chunk_rows_def enumerate_eq_zip batch_size_def summary_chunk_type_def insert_ok_def
      chunk_text_def chunk_loop.simps str_split_def is_space_def list_slice_def slice_bound_def)

lemma example_call_1:
  "find (\<lambda>c. ec_id c = 1) (earnings_calls example_store)
     = Some \<lparr>ec_id = 1, ec_company_symbol = ''DLTR'', ec_quarter = ''Q1'', ec_year = 2024,
             ec_call_date = None, ec_raw_transcript = Some ''revenue  grew''\<rparr>"
  by (simp add: example_store_def)

text \<open>
  C2. A run of \<^const>\<open>add_earnings_embeddings\<close> is a replacement. A second run on the store the
  first run left (same call, same summaries, same embedder) returns the same number as the
  first and leaves the same store. When the embedding model is loaded and the call exists,
  the run leaves the chunks of every other call as they were, and the chunks stored for the
  call afterwards are exactly the rows the run computes from the transcript and the
  summaries, in the order of their insertion: none of the chunks stored for the call before
  the run is among them unless the run inserted it again, so the run on any other store with
  the same calls and summaries leaves the same chunks for the call and returns the same
  number. The number returned is 0 (an exception was caught) or the number of chunks stored
  for the call; it is the number of chunks stored for the call whenever
  \<^verbatim>\<open>encode\<close> returns one vector for every text and the chunk types of the summaries of the
  call fit their column.
\<close>

theorem add_earnings_embeddings_idempotent:
  "snd (add_earnings_embeddings embedder
          (fst (add_earnings_embeddings embedder db cid ct cs)) cid ct cs)
     = snd (add_earnings_embeddings embedder db cid ct cs)
   \<and> fst (add_earnings_embeddings embedder
          (fst (add_earnings_embeddings embedder db cid ct cs)) cid ct cs)
     = fst (add_earnings_embeddings embedder db cid ct cs)
   \<and> (embedder = Some encode \<and> find (\<lambda>c. ec_id c = cid) (earnings_calls db) = Some call \<longrightarrow>
        filter (\<lambda>c. dc_earnings_call_id c \<noteq> cid)
          (document_chunks (fst (add_earnings_embeddings embedder db cid ct cs)))
          = filter (\<lambda>c. dc_earnings_call_id c \<noteq> cid) (document_chunks db)
      \<and> filter (\<lambda>c. dc_earnings_call_id c = cid)
          (document_chunks (fst (add_earnings_embeddings embedder db cid ct cs)))
          = new_rows encode cid call (summaries db) ct cs
      \<and> (earnings_calls other = earnings_calls db \<and> summaries other = summaries db \<longrightarrow>
            filter (\<lambda>c. dc_earnings_call_id c = cid)
              (document_chunks (fst (add_earnings_embeddings embedder other cid ct cs)))
              = filter (\<lambda>c. dc_earnings_call_id c = cid)
                  (document_chunks (fst (add_earnings_embeddings embedder db cid ct cs)))
          \<and> snd (add_earnings_embeddings embedder other cid ct cs)
              = snd (add_earnings_embeddings embedder db cid ct cs))
      \<and> (snd (add_earnings_embeddings embedder db cid ct cs) = 0
          \<or> snd (add_earnings_embeddings embedder db cid ct cs)
              = length (filter (\<lambda>c. dc_earnings_call_id c = cid)
                  (document_chunks (fst (add_earnings_embeddings embedder db cid ct cs)))))
      \<and> ((\<forall>texts. \<exists>vs. encode texts = Some vs \<and> length vs = length texts)
           \<and> (\<forall>s\<in>set (summaries db). sm_earnings_call_id s = cid
                  \<longrightarrow> length (summary_chunk_type s) \<le> 50) \<longrightarrow>
            snd (add_earnings_embeddings embedder db cid ct cs)
              = length (filter (\<lambda>c. dc_earnings_call_id c = cid)
                  (document_chunks (fst (add_earnings_embeddings embedder db cid ct cs))))))"
proof (intro conjI impI)
  show "snd (add_earnings_embeddings embedder
          (fst (add_earnings_embeddings embedder db cid ct cs)) cid ct cs)
     = snd (add_earnings_embeddings embedder db cid ct cs)"
    by (simp add: add_earnings_embeddings_again)
  show "fst (add_earnings_embeddings embedder
          (fst (add_earnings_embeddings embedder db cid ct cs)) cid ct cs)
     = fst (add_earnings_embeddings embedder db cid ct cs)"
    by (simp add: add_earnings_embeddings_again)
next
  assume a: "embedder = Some encode \<and> find (\<lambda>c. ec_id c = cid) (earnings_calls db) = Some call"
  then have e: "embedder = Some encode"
    and found: "find (\<lambda>c. ec_id c = cid) (earnings_calls db) = Some call"
    by simp_all
  show "filter (\<lambda>c. dc_earnings_call_id c \<noteq> cid)
          (document_chunks (fst (add_earnings_embeddings embedder db cid ct cs)))
          = filter (\<lambda>c. dc_earnings_call_id c \<noteq> cid) (document_chunks db)"
    unfolding e by (rule other_rows_after [OF found])
  show own: "filter (\<lambda>c. dc_earnings_call_id c = cid)
          (document_chunks (fst (add_earnings_embeddings embedder db cid ct cs)))
          = new_rows encode cid call (summaries db) ct cs"
    unfolding e by (rule own_rows_after [OF found])
  show "snd (add_earnings_embeddings embedder db cid ct cs) = 0
          \<or> snd (add_earnings_embeddings embedder db cid ct cs)
              = length (filter (\<lambda>c. dc_earnings_call_id c = cid)
                  (document_chunks (fst (add_earnings_embeddings embedder db cid ct cs))))"
    unfolding e using count_after [OF found, of encode ct cs] by (simp split: if_splits)
  show "snd (add_earnings_embeddings embedder db cid ct cs)
              = length (filter (\<lambda>c. dc_earnings_call_id c = cid)
                  (document_chunks (fst (add_earnings_embeddings embedder db cid ct cs))))"
    if t: "(\<forall>texts. \<exists>vs. encode texts = Some vs \<and> length vs = length texts)
           \<and> (\<forall>s\<in>set (summaries db). sm_earnings_call_id s = cid
                  \<longrightarrow> length (summary_chunk_type s) \<le> 50)"
  proof -
    have total: "\<exists>vs. encode texts = Some vs \<and> length vs = length texts" for texts
      using t by blast
    have fits: "\<forall>s\<in>set (summaries db). sm_earnings_call_id s = cid
                  \<longrightarrow> length (summary_chunk_type s) \<le> 50"
      using t by blast
    have "snd (embed_transcript encode cid call ct) \<and> snd (embed_summaries encode cid (summaries db) cs)"
      using total fits by (rule run_completes)
    then show ?thesis
      unfolding e using count_after [OF found, of encode ct cs] by simp
  qed
  {
    assume o: "earnings_calls other = earnings_calls db \<and> summaries other = summaries db"
    then have found': "find (\<lambda>c. ec_id c = cid) (earnings_calls other) = Some call"
      using found by simp
    show "filter (\<lambda>c. dc_earnings_call_id c = cid)
              (document_chunks (fst (add_earnings_embeddings embedder other cid ct cs)))
              = filter (\<lambda>c. dc_earnings_call_id c = cid)
                  (document_chunks (fst (add_earnings_embeddings embedder db cid ct cs)))"
      unfolding e using o by (simp only: own_rows_after [OF found] own_rows_after [OF found'])
    show "snd (add_earnings_embeddings embedder other cid ct cs)
              = snd (add_earnings_embeddings embedder db cid ct cs)"
      unfolding e using o
      by (simp add: add_earnings_embeddings_found [OF found] add_earnings_embeddings_found [OF found'])
  }
qed

theorem add_earnings_embeddings_idempotent_witness:
  "find (\<lambda>c. ec_id c = 1) (earnings_calls example_store)
       = Some \<lparr>ec_id = 1, ec_company_symbol = ''DLTR'', ec_quarter = ''Q1'', ec_year = 2024,
               ec_call_date = None, ec_raw_transcript = Some ''revenue  grew''\<rparr>
   \<and> (\<forall>texts. \<exists>vs. example_encode texts = Some vs \<and> length vs = length texts)
   \<and> map (\<lambda>s. length (summary_chunk_type s))
         (filter (\<lambda>s. sm_earnings_call_id s = 1) (summaries example_store)) = [17, 25]
   \<and> earnings_calls (example_store\<lparr>document_chunks := []\<rparr>) = earnings_calls example_store
   \<and> summaries (example_store\<lparr>document_chunks := []\<rparr>) = summaries example_store
   \<and> snd (add_earnings_embeddings (Some example_encode) example_store 1 True True) = 3
   \<and> snd (add_earnings_embeddings (Some example_encode)
            (fst (add_earnings_embeddings (Some example_encode) example_store 1 True True))
            1 True True) = 3
   \<and> length (filter (\<lambda>c. dc_earnings_call_id c = 1)
        (document_chunks (fst (add_earnings_embeddings (Some example_encode)
            (fst (add_earnings_embeddings (Some example_encode) example_store 1 True True))
            1 True True)))) = 3
   \<and> filter (\<lambda>c. dc_earnings_call_id c \<noteq> 1)
        (document_chunks (fst (add_earnings_embeddings (Some example_encode) example_store 1 True True)))
       = document_chunks example_store
   \<and> snd (add_earnings_embeddings (Some example_encode)
            (example_store\<lparr>document_chunks := []\<rparr>) 1 True True) = 3"
proof -
  let ?run1 = "add_earnings_embeddings (Some example_encode) example_store 1 True True"
  have total: "\<forall>texts. \<exists>vs. example_encode texts = Some vs \<and> length vs = length texts"
    using example_encode_total by blast
  have fits: "\<forall>s\<in>set (summaries example_store). sm_earnings_call_id s = 1
          \<longrightarrow> length (summary_chunk_type s) \<le> 50"
    by (simp add: example_store_def summary_chunk_type_def)
  have lengths: "map (\<lambda>s. length (summary_chunk_type s))
         (filter (\<lambda>s. sm_earnings_call_id s = 1) (summaries example_store)) = [17, 25]"
    by (simp add: example_store_def summary_chunk_type_def)
  have same_calls: "earnings_calls (example_store\<lparr>document_chunks := []\<rparr>) = earnings_calls example_store"
    by simp
  have same_summaries: "summaries (example_store\<lparr>document_chunks := []\<rparr>) = summaries example_store"
    by simp
  note inst = add_earnings_embeddings_idempotent [where embedder = "Some example_encode"
      and encode = example_encode and db = example_store and cid = 1 and ct = True and cs = True
      and call = "\<lparr>ec_id = 1, ec_company_symbol = ''DLTR'', ec_quarter = ''Q1'', ec_year = 2024,
             ec_call_date = None, ec_raw_transcript = Some ''revenue  grew''\<rparr>"
      and other = "example_store\<lparr>document_chunks := []\<rparr>"]
  have first: "snd ?run1 = 3"
    by (simp add: example_run_1)
  have second: "snd (add_earnings_embeddings (Some example_encode) (fst ?run1) 1 True True) = 3"
    using inst first by simp
  have same: "fst (add_earnings_embeddings (Some example_encode) (fst ?run1) 1 True True) = fst ?run1"
    using inst by blast
  have "snd ?run1 = length (filter (\<lambda>c. dc_earnings_call_id c = 1) (document_chunks (fst ?run1)))"
    using inst example_call_1 total fits by blast
  then have stored: "length (filter (\<lambda>c. dc_earnings_call_id c = 1)
        (document_chunks (fst (add_earnings_embeddings (Some example_encode) (fst ?run1) 1 True True)))) = 3"
    using first by (simp only: same)
  have "filter (\<lambda>c. dc_earnings_call_id c \<noteq> 1) (document_chunks (fst ?run1))
        = filter (\<lambda>c. dc_earnings_call_id c \<noteq> 1) (document_chunks example_store)"
    using inst example_call_1 by blast
  moreover have "filter (\<lambda>c. dc_earnings_call_id c \<noteq> 1) (document_chunks example_store)
        = document_chunks example_store"
    by (simp add: example_store_def)
  ultimately have others: "filter (\<lambda>c. dc_earnings_call_id c \<noteq> 1) (document_chunks (fst ?run1))
        = document_chunks example_store"
    by simp
  have "snd (add_earnings_embeddings (Some example_encode)
            (example_store\<lparr>document_chunks := []\<rparr>) 1 True True) = snd ?run1"
    using inst example_call_1 same_calls same_summaries by blast
  then have emptied: "snd (add_earnings_embeddings (Some example_encode)
            (example_store\<lparr>document_chunks := []\<rparr>) 1 True True) = 3"
    using first by simp
  from example_call_1 total lengths same_calls same_summaries first second stored others emptied
  show ?thesis
    by (simp only: simp_thms)
qed









lemma example_call_3:
  "find (\<lambda>c. ec_id c = 3) (earnings_calls example_batch_store)
     = Some \<lparr>ec_id = 3, ec_company_symbol = ''DLTR'', ec_quarter = ''Q3'', ec_year = 2024,
             ec_call_date = None, ec_raw_transcript = None\<rparr>"
  by (simp add: example_batch_store_def)



lemma summary_batches_no_content:
  "filter (\<lambda>s. truthy (sm_content s)) ss = [] \<Longrightarrow> summary_batches enc cid ss = ([], True)"
proof (induction ss)
  case Nil
  then show ?case by simp
next
  case (Cons s ss)
  then have "\<not> truthy (sm_content s)" and "filter (\<lambda>s. truthy (sm_content s)) ss = []"
    by (auto split: if_splits)
  then show ?case using Cons.IH by (simp add: summary_batches_skip)
qed

lemma embed_transcript_no_text:
  "\<not> truthy (ec_raw_transcript call) \<Longrightarrow> embed_transcript enc cid call ct = ([], True)"
  by (simp add: embed_transcript_def truthy_def split: option.splits)

lemma embed_summaries_not_transcript:
  "filter (\<lambda>r. dc_chunk_type r = ''transcript'') (fst (embed_summaries enc cid srows cs)) = []"
proof -
  let ?ss = "filter (\<lambda>s. sm_earnings_call_id s = cid) srows"
  have "''transcript'' \<notin> summary_chunk_type ` set (filter (\<lambda>s. truthy (sm_content s)) ?ss)"
    using summary_chunk_type_not_transcript by (metis imageE)
  then have "filter (\<lambda>r. dc_chunk_type r = ''transcript'') (fst (summary_batches enc cid ?ss)) = []"
    using filter_type_other [OF summary_batches_types] by blast
  then show ?thesis by (simp add: embed_summaries_def)
qed

text \<open>
  C6, as the code has it. For a news article without content \<^const>\<open>add_news_embeddings\<close>
  returns 0 and leaves the store as it is. Without an embedding model
  \<^const>\<open>add_earnings_embeddings\<close> returns 0 and leaves the store as it is, whatever the
  transcript. With the model loaded, for an earnings call without transcript it is still a
  replacement: the chunks stored for the call are deleted, no transcript chunk is created,
  and the summaries of the call are chunked and embedded. The number returned is the number
  of summary chunks inserted when the summary loop runs to its end, and 0 when an exception
  is caught in it, the chunks committed for earlier summaries remaining in the store. When
  the summaries are not to be chunked or none of them has content, no chunk is inserted and
  0 is returned. Both functions return in every case: an exception inside them is a branch
  that returns 0.
\<close>

theorem empty_text_embeddings:
  "(find (\<lambda>n. fn_id n = nid) (news_articles db) = Some news \<and> \<not> truthy (fn_content news)
      \<longrightarrow> add_news_embeddings embedder db nid = (db, 0))
   \<and> add_earnings_embeddings None db cid ct cs = (db, 0)
   \<and> (find (\<lambda>c. ec_id c = cid) (earnings_calls db) = Some call
        \<and> \<not> truthy (ec_raw_transcript call)
      \<longrightarrow> add_earnings_embeddings (Some encode) db cid ct cs =
            (db\<lparr>document_chunks :=
                  filter (\<lambda>c. dc_earnings_call_id c \<noteq> cid) (document_chunks db)
                  @ fst (embed_summaries encode cid (summaries db) cs)\<rparr>,
             if snd (embed_summaries encode cid (summaries db) cs)
             then length (fst (embed_summaries encode cid (summaries db) cs)) else 0)
          \<and> filter (\<lambda>r. dc_chunk_type r = ''transcript'')
               (fst (embed_summaries encode cid (summaries db) cs)) = []
          \<and> (\<not> cs \<or> filter (\<lambda>s. truthy (sm_content s))
                       (filter (\<lambda>s. sm_earnings_call_id s = cid) (summaries db)) = []
              \<longrightarrow> embed_summaries encode cid (summaries db) cs = ([], True)))"
proof (intro conjI impI)
  assume "find (\<lambda>n. fn_id n = nid) (news_articles db) = Some news \<and> \<not> truthy (fn_content news)"
  then show "add_news_embeddings embedder db nid = (db, 0)"
    by (simp add: add_news_embeddings_def truthy_def split: option.splits)
next
  show "add_earnings_embeddings None db cid ct cs = (db, 0)"
    by (simp add: add_earnings_embeddings_def)
next
  assume a: "find (\<lambda>c. ec_id c = cid) (earnings_calls db) = Some call
        \<and> \<not> truthy (ec_raw_transcript call)"
  then show "add_earnings_embeddings (Some encode) db cid ct cs =
            (db\<lparr>document_chunks :=
                  filter (\<lambda>c. dc_earnings_call_id c \<noteq> cid) (document_chunks db)
                  @ fst (embed_summaries encode cid (summaries db) cs)\<rparr>,
             if snd (embed_summaries encode cid (summaries db) cs)
             then length (fst (embed_summaries encode cid (summaries db) cs)) else 0)"
    by (simp add: add_earnings_embeddings_def embed_transcript_no_text case_prod_beta)
next
  show "filter (\<lambda>r. dc_chunk_type r = ''transcript'')
               (fst (embed_summaries encode cid (summaries db) cs)) = []"
    by (rule embed_summaries_not_transcript)
next
  assume "\<not> cs \<or> filter (\<lambda>s. truthy (sm_content s))
                       (filter (\<lambda>s. sm_earnings_call_id s = cid) (summaries db)) = []"
  then show "embed_summaries encode cid (summaries db) cs = ([], True)"
    by (auto simp: embed_summaries_def summary_batches_no_content)
qed

lemma example_run_2:
  "add_earnings_embeddings (Some example_encode) example_store 2 True True =
     (example_store\<lparr>document_chunks :=
        [\<lparr>dc_earnings_call_id = 2, dc_chunk_text = ''good quarter'', dc_chunk_index = 0,
          dc_chunk_type = ''summary_executive'', dc_embedding = Some 12\<rparr>]\<rparr>, 1)"
  by (simp add: add_earnings_embeddings_def example_store_def example_encode_def
      embed_transcript_def embed_summaries_def summary_batches.simps
      chunk_rows_def enumerate_eq_zip summary_chunk_type_def insert_ok_def
      chunk_text_def chunk_loop.simps str_split_def is_space_def list_slice_def slice_bound_def)

lemma example_call_2:
  "find (\<lambda>c. ec_id c = 2) (earnings_calls example_store)
     = Some \<lparr>ec_id = 2, ec_company_symbol = ''DLTR'', ec_quarter = ''Q2'', ec_year = 2024,
             ec_call_date = None, ec_raw_transcript = None\<rparr>"
  by (simp add: example_store_def)

lemma example_news_7:
  "find (\<lambda>n. fn_id n = 7) (news_articles example_store)
     = Some \<lparr>fn_id = 7, fn_symbol = ''DLTR'', fn_title = ''Headline'', fn_content = None,
          fn_publisher = None, fn_published_date = None, fn_url = None\<rparr>"
  by (simp add: example_store_def)

lemma example_run_3_failing:
  "embed_summaries failing_encode 3 (summaries example_batch_store) True
     = ([\<lparr>dc_earnings_call_id = 3, dc_chunk_text = ''first draft'', dc_chunk_index = 0,
          dc_chunk_type = ''summary_executive'', dc_embedding = Some 11\<rparr>], False)"
  by (simp add: example_batch_store_def failing_encode_def embed_summaries_def
      summary_batches.simps chunk_rows_def enumerate_eq_zip summary_chunk_type_def insert_ok_def
      chunk_text_def chunk_loop.simps str_split_def is_space_def list_slice_def slice_bound_def)

theorem empty_text_embeddings_witness:
  "find (\<lambda>n. fn_id n = 7) (news_articles example_store)
     = Some \<lparr>fn_id = 7, fn_symbol = ''DLTR'', fn_title = ''Headline'', fn_content = None,
          fn_publisher = None, fn_published_date = None, fn_url = None\<rparr>
   \<and> \<not> truthy (None :: string option)
   \<and> add_news_embeddings (Some example_encode) example_store 7 = (example_store, 0)
   \<and> find (\<lambda>c. ec_id c = 2) (earnings_calls example_store)
     = Some \<lparr>ec_id = 2, ec_company_symbol = ''DLTR'', ec_quarter = ''Q2'', ec_year = 2024,
             ec_call_date = None, ec_raw_transcript = None\<rparr>
   \<and> add_earnings_embeddings None example_store 2 True True = (example_store, 0)
   \<and> add_earnings_embeddings (Some example_encode) example_store 2 True False
       = (example_store\<lparr>document_chunks := []\<rparr>, 0)
   \<and> find (\<lambda>c. ec_id c = 3) (earnings_calls example_batch_store)
     = Some \<lparr>ec_id = 3, ec_company_symbol = ''DLTR'', ec_quarter = ''Q3'', ec_year = 2024,
             ec_call_date = None, ec_raw_transcript = None\<rparr>
   \<and> add_earnings_embeddings (Some failing_encode) example_batch_store 3 True True
       = (example_batch_store\<lparr>document_chunks :=
            [\<lparr>dc_earnings_call_id = 3, dc_chunk_text = ''first draft'', dc_chunk_index = 0,
              dc_chunk_type = ''summary_executive'', dc_embedding = Some 11\<rparr>]\<rparr>, 0)"
proof -
  let ?news = "\<lparr>fn_id = 7, fn_symbol = ''DLTR'', fn_title = ''Headline'', fn_content = None,
          fn_publisher = None, fn_published_date = None, fn_url = None\<rparr>"
  let ?call = "\<lparr>ec_id = 2, ec_company_symbol = ''DLTR'', ec_quarter = ''Q2'', ec_year = 2024,
             ec_call_date = None, ec_raw_transcript = None\<rparr>"
  let ?call3 = "\<lparr>ec_id = 3, ec_company_symbol = ''DLTR'', ec_quarter = ''Q3'', ec_year = 2024,
             ec_call_date = None, ec_raw_transcript = None\<rparr>"
  note inst = empty_text_embeddings [where db = example_store and nid = 7 and cid = 2
      and news = ?news and call = ?call
      and embedder = "Some example_encode" and encode = example_encode and ct = True and cs = False]
  note inst_none = empty_text_embeddings [where db = example_store and nid = 7 and cid = 2
      and news = ?news and call = ?call
      and embedder = "Some example_encode" and encode = example_encode and ct = True and cs = True]
  note inst_failing = empty_text_embeddings [where db = example_batch_store and nid = 7 and cid = 3
      and news = ?news and call = ?call3
      and embedder = "Some failing_encode" and encode = failing_encode and ct = True and cs = True]
  have n: "\<not> truthy (None :: string option)"
    by (simp add: truthy_def)
  have news: "add_news_embeddings (Some example_encode) example_store 7 = (example_store, 0)"
    using inst example_news_7 n by simp
  have none: "add_earnings_embeddings None example_store 2 True True = (example_store, 0)"
    using inst_none by (rule conjunct1 [OF conjunct2])
  have kept: "filter (\<lambda>c. dc_earnings_call_id c \<noteq> 2) (document_chunks example_store) = []"
    by (simp add: example_store_def)
  have "embed_summaries example_encode 2 (summaries example_store) False = ([], True)"
    using inst example_call_2 n by simp
  then have call: "add_earnings_embeddings (Some example_encode) example_store 2 True False
       = (example_store\<lparr>document_chunks := []\<rparr>, 0)"
    using inst example_call_2 n kept by simp
  have kept3: "filter (\<lambda>c. dc_earnings_call_id c \<noteq> 3) (document_chunks example_batch_store) = []"
    by (simp add: example_batch_store_def)
  have failing: "add_earnings_embeddings (Some failing_encode) example_batch_store 3 True True
       = (example_batch_store\<lparr>document_chunks :=
            [\<lparr>dc_earnings_call_id = 3, dc_chunk_text = ''first draft'', dc_chunk_index = 0,
              dc_chunk_type = ''summary_executive'', dc_embedding = Some 11\<rparr>]\<rparr>, 0)"
    using inst_failing example_call_3 n kept3 by (simp add: example_run_3_failing)
  from example_news_7 n news example_call_2 none call example_call_3 failing show ?thesis
    by (simp only: simp_thms)
qed

text \<open>
  C6 as the specification states it fails for an earnings call: call 2 of the example store
  has no transcript, yet the run returns 1, creates a summary chunk and deletes the chunk
  that was stored for the call.
\<close>

theorem empty_text_embeddings_counterexample:
  "find (\<lambda>c. ec_id c = 2) (earnings_calls example_store)
     = Some \<lparr>ec_id = 2, ec_company_symbol = ''DLTR'', ec_quarter = ''Q2'', ec_year = 2024,
             ec_call_date = None, ec_raw_transcript = None\<rparr>
   \<and> snd (add_earnings_embeddings (Some example_encode) example_store 2 True True) = 1
   \<and> document_chunks example_store
       = [\<lparr>dc_earnings_call_id = 2, dc_chunk_text = ''old text'', dc_chunk_index = 0,
           dc_chunk_type = ''transcript'', dc_embedding = Some 8\<rparr>]
   \<and> document_chunks (fst (add_earnings_embeddings (Some example_encode) example_store 2 True True))
       = [\<lparr>dc_earnings_call_id = 2, dc_chunk_text = ''good quarter'', dc_chunk_index = 0,
           dc_chunk_type = ''summary_executive'', dc_embedding = Some 12\<rparr>]"
proof -
  have "document_chunks example_store
       = [\<lparr>dc_earnings_call_id = 2, dc_chunk_text = ''old text'', dc_chunk_index = 0,
           dc_chunk_type = ''transcript'', dc_embedding = Some 8\<rparr>]"
    by (simp add: example_store_def)
  then show ?thesis
    using example_call_2 by (simp add: example_run_2)
qed

section \<open>Properties of the retrieval engine\<close>

lemma order_limit_sorted:
  "sorted_wrt (\<lambda>a b. score a \<ge> score b) (order_limit score n rows)"
proof -
  have "sorted (map (\<lambda>r. - score r) (sort_key (\<lambda>r. - score r) rows))"
    by (rule sorted_sort_key)
  then have "sorted_wrt (\<lambda>a b. score a \<ge> score b) (sort_key (\<lambda>r. - score r) rows)"
    by (simp add: sorted_wrt_map)
  then show ?thesis
    unfolding order_limit_def by (rule sorted_wrt_take)
qed

lemma order_limit_length: "length (order_limit score n rows) \<le> n"
  by (simp add: order_limit_def)

lemma order_limit_subset: "set (order_limit score n rows) \<subseteq> set rows"
  using set_take_subset [of n "sort_key (\<lambda>r. - score r) rows"]
  by (simp add: order_limit_def)

lemma sorted_map_order_limit:
  assumes "\<And>x. key (f x) = score x"
  shows "sorted_wrt (\<lambda>a b. key a \<ge> key b) (map f (order_limit score n rows))"
  using order_limit_sorted [of score n rows] by (simp add: sorted_wrt_map assms)

lemma above_map_order_limit:
  assumes "\<And>x. key (f x) = score x"
  shows "list_all (\<lambda>r. key r \<ge> t) (map f (order_limit score n (filter (\<lambda>x. score x \<ge> t) rows)))"
  using order_limit_subset [of score n "filter (\<lambda>x. score x \<ge> t) rows"]
  by (auto simp: list_all_iff assms)

lemma document_result_similarity: "sr_similarity (document_result row) = row_similarity row"
  by (cases row) (simp add: document_result_def row_similarity_def)

lemma news_result_similarity: "sr_similarity (news_result row) = row_similarity row"
  by (cases row) (simp add: news_result_def row_similarity_def)

lemma document_query_sorted:
  "sorted_wrt (\<lambda>a b. sr_similarity a \<ge> sr_similarity b)
     (document_query distance db q company search_type limit threshold)"
  unfolding document_query_def Let_def
  by (rule sorted_map_order_limit) (rule document_result_similarity)

lemma news_query_sorted:
  "sorted_wrt (\<lambda>a b. sr_similarity a \<ge> sr_similarity b)
     (news_query distance db q company limit threshold)"
  unfolding news_query_def Let_def
  by (rule sorted_map_order_limit) (rule news_result_similarity)

lemma document_query_length:
  "length (document_query distance db q company search_type limit threshold) \<le> limit"
  unfolding document_query_def Let_def
  by (simp only: length_map order_limit_length)

lemma news_query_length:
  "length (news_query distance db q company limit threshold) \<le> limit"
  unfolding news_query_def Let_def
  by (simp only: length_map order_limit_length)

lemma document_query_threshold:
  "list_all (\<lambda>r. sr_similarity r \<ge> threshold)
     (document_query distance db q company search_type limit threshold)"
  unfolding document_query_def Let_def
  by (rule above_map_order_limit) (rule document_result_similarity)

lemma news_query_threshold:
  "list_all (\<lambda>r. sr_similarity r \<ge> threshold)
     (news_query distance db q company limit threshold)"
  unfolding news_query_def Let_def
  by (rule above_map_order_limit) (rule news_result_similarity)

lemma partition_results_threshold:
  "list_all (\<lambda>r. sr_similarity r \<ge> threshold)
     (partition_results distance db q company search_type limit threshold)"
  by (simp add: partition_results_def document_query_threshold news_query_threshold)

lemma semantic_search_cases:
  "semantic_search embedder distance db query company search_type limit threshold = []
   \<or> (\<exists>encode q rest. embedder = Some encode \<and> encode [query] = Some (q # rest)
        \<and> semantic_search embedder distance db query company search_type limit threshold
            = order_limit sr_similarity limit
                (partition_results distance db q company search_type limit threshold))"
  by (auto simp: semantic_search_def split: option.splits list.splits)


lemma semantic_search_sorted:
  "sorted_wrt (\<lambda>a b. sr_similarity a \<ge> sr_similarity b)
     (semantic_search embedder distance db query company search_type limit threshold)"
  using semantic_search_cases [of embedder distance db query company search_type limit threshold]
    order_limit_sorted [of sr_similarity limit]
  by auto

lemma semantic_search_length:
  "length (semantic_search embedder distance db query company search_type limit threshold) \<le> limit"
  using semantic_search_cases [of embedder distance db query company search_type limit threshold]
    order_limit_length [of sr_similarity limit]
  by auto

lemma example_search:
  "semantic_search (Some example_encode) example_distance example_store ''revenue'' None ''all'' 2 (7 / 10)
     = [\<lparr>sr_content = ''old text'', sr_type = ''transcript'', sr_source = ''earnings_call'',
         sr_company_symbol = ''DLTR'', sr_similarity = 9 / 10,
         sr_details = EarningsDetails ''Q2'' 2024 None 2\<rparr>,
        \<lparr>sr_content = ''stale'', sr_type = ''news'', sr_source = ''financial_news'',
         sr_company_symbol = ''DLTR'', sr_similarity = 8 / 10,
         sr_details = NewsDetails ''Headline'' None None None\<rparr>]"
  by (simp add: semantic_search_def example_encode_def example_store_def example_distance_def
      partition_results_def document_query_def news_query_def order_limit_def truthy_def
      document_result_def news_result_def row_similarity_def)

text \<open>
  C3. The list \<^const>\<open>semantic_search\<close> returns is sorted by similarity in descending order
  and has at most \<open>limit\<close> elements, for every input. When the embedder is loaded and
  encodes the query, the list is computed as the claim says: the query on the document
  chunks (transcript and summary chunks, one table) and the query on the news chunks are
  run as \<^verbatim>\<open>search_type\<close> selects them, each sorted by similarity descending and cut to
  \<open>limit\<close> rows; their results are concatenated, sorted by similarity descending and cut to
  \<open>limit\<close>.
\<close>

theorem semantic_search_ranked:
  "sorted_wrt (\<lambda>a b. sr_similarity a \<ge> sr_similarity b)
     (semantic_search embedder distance db query company search_type limit threshold)
   \<and> length (semantic_search embedder distance db query company search_type limit threshold) \<le> limit
   \<and> (embedder = Some encode \<and> encode [query] = Some (q # rest) \<longrightarrow>
        semantic_search embedder distance db query company search_type limit threshold
          = take limit (sort_key (\<lambda>r. - sr_similarity r)
              ((if search_type \<in> set [''all'', ''transcript'', ''summary'']
                then document_query distance db q company search_type limit threshold else [])
               @ (if search_type \<in> set [''all'', ''news'']
                  then news_query distance db q company limit threshold else [])))
        \<and> length (document_query distance db q company search_type limit threshold) \<le> limit
        \<and> length (news_query distance db q company limit threshold) \<le> limit
        \<and> sorted_wrt (\<lambda>a b. sr_similarity a \<ge> sr_similarity b)
             (document_query distance db q company search_type limit threshold)
        \<and> sorted_wrt (\<lambda>a b. sr_similarity a \<ge> sr_similarity b)
             (news_query distance db q company limit threshold))"
proof -
  have "semantic_search embedder distance db query company search_type limit threshold
          = take limit (sort_key (\<lambda>r. - sr_similarity r)
              ((if search_type \<in> set [''all'', ''transcript'', ''summary'']
                then document_query distance db q company search_type limit threshold else [])
               @ (if search_type \<in> set [''all'', ''news'']
                  then news_query distance db q company limit threshold else [])))"
    if "embedder = Some encode \<and> encode [query] = Some (q # rest)"
    using that
    by (simp only: semantic_search_def option.case list.case order_limit_def partition_results_def)
  then show ?thesis
    using semantic_search_sorted [of embedder distance db query company search_type limit threshold]
      semantic_search_length [of embedder distance db query company search_type limit threshold]
      document_query_length [of distance db q company search_type limit threshold]
      news_query_length [of distance db q company limit threshold]
      document_query_sorted [of distance db q company search_type limit threshold]
      news_query_sorted [of distance db q company limit threshold]
    by blast
qed

theorem semantic_search_ranked_witness:
  "Some example_encode = Some example_encode
   \<and> example_encode [''revenue''] = Some (7 # [])
   \<and> semantic_search (Some example_encode) example_distance example_store ''revenue'' None ''all'' 2 (7 / 10)
       = take 2 (sort_key (\<lambda>r. - sr_similarity r)
           ((if ''all'' \<in> set [''all'', ''transcript'', ''summary'']
             then document_query example_distance example_store 7 None ''all'' 2 (7 / 10) else [])
            @ (if ''all'' \<in> set [''all'', ''news'']
               then news_query example_distance example_store 7 None 2 (7 / 10) else [])))
   \<and> map sr_similarity
         (semantic_search (Some example_encode) example_distance example_store ''revenue'' None ''all'' 2 (7 / 10))
       = [9 / 10, 8 / 10]
   \<and> sorted_wrt (\<lambda>a b. sr_similarity a \<ge> sr_similarity b)
         (semantic_search (Some example_encode) example_distance example_store ''revenue'' None ''all'' 2 (7 / 10))
   \<and> length (semantic_search (Some example_encode) example_distance example_store ''revenue'' None ''all'' 2 (7 / 10))
       \<le> 2"
proof -
  have enc: "example_encode [''revenue''] = Some (7 # [])"
    by (simp add: example_encode_def)
  have sims: "map sr_similarity
         (semantic_search (Some example_encode) example_distance example_store ''revenue'' None ''all'' 2 (7 / 10))
       = [9 / 10, 8 / 10]"
    by (simp only: example_search list.map search_result.simps)
  note inst = semantic_search_ranked [where embedder = "Some example_encode"
      and encode = example_encode and query = "''revenue''" and q = 7 and rest = "[]"
      and distance = example_distance and db = example_store and company = None
      and search_type = "''all''" and limit = 2 and threshold = "7 / 10"]
  from inst enc sims show ?thesis
    by blast
qed

text \<open>
  C4. No element of the list \<^const>\<open>semantic_search\<close> returns has a similarity below the
  threshold: both queries keep the rows with \<open>similarity \<ge> threshold\<close> only, and the merge
  sorts and cuts.
\<close>

theorem semantic_search_threshold:
  "\<forall>r \<in> set (semantic_search embedder distance db query company search_type limit threshold).
     \<not> sr_similarity r < threshold"
proof -
  have "set (order_limit sr_similarity limit
               (partition_results distance db q company search_type limit threshold))
        \<subseteq> set (partition_results distance db q company search_type limit threshold)" for q
    by (rule order_limit_subset)
  then have "\<forall>r \<in> set (order_limit sr_similarity limit
               (partition_results distance db q company search_type limit threshold)).
              sr_similarity r \<ge> threshold" for q
    using partition_results_threshold [of threshold distance db q company search_type limit]
    by (auto simp: list_all_iff)
  then show ?thesis
    using semantic_search_cases [of embedder distance db query company search_type limit threshold]
    by (auto simp: not_less)
qed

theorem semantic_search_threshold_witness:
  "\<lparr>sr_content = ''stale'', sr_type = ''news'', sr_source = ''financial_news'',
     sr_company_symbol = ''DLTR'', sr_similarity = 8 / 10,
     sr_details = NewsDetails ''Headline'' None None None\<rparr>
     \<in> set (semantic_search (Some example_encode) example_distance example_store ''revenue'' None ''all'' 2 (7 / 10))
   \<and> \<not> sr_similarity
         \<lparr>sr_content = ''stale'', sr_type = ''news'', sr_source = ''financial_news'',
          sr_company_symbol = ''DLTR'', sr_similarity = 8 / 10,
          sr_details = NewsDetails ''Headline'' None None None\<rparr> < 7 / 10"
proof -
  have member: "\<lparr>sr_content = ''stale'', sr_type = ''news'', sr_source = ''financial_news'',
     sr_company_symbol = ''DLTR'', sr_similarity = 8 / 10,
     sr_details = NewsDetails ''Headline'' None None None\<rparr>
     \<in> set (semantic_search (Some example_encode) example_distance example_store ''revenue'' None ''all'' 2 (7 / 10))"
    by (simp only: example_search list.set insert_iff simp_thms)
  note inst = semantic_search_threshold [where embedder = "Some example_encode"
      and query = "''revenue''" and distance = example_distance and db = example_store
      and company = None and search_type = "''all''" and limit = 2 and threshold = "7 / 10"]
  from inst member show ?thesis
    by blast
qed

end
